theory Spec2Isabelle
  imports Main "HOL-Library.AList"
begin

section \<open>Values of the handler\<close>

text \<open>
  The request body after \<^verbatim>\<open>request.json()\<close>: a decoded JSON document. An object
  is the list of its items in insertion order (keys distinct, as in a Python dict).
  The handler never computes with numbers, so a float is kept as its literal text.
\<close>

datatype json =
    JNull
  | JBool bool
  | JInt int
  | JFloat string
  | JStr string
  | JArr "json list"
  | JObj "(string \<times> json) list"

text \<open>
  Instances of Python's \<^verbatim>\<open>Exception\<close>. \<open>Raised cls msg\<close> is an exception
  raised inside a library (httpx, aiofiles, PIL, the JSON decoder) with its class name
  and its message; the others are raised by the handler's own expressions.
\<close>

datatype exn =
    KeyError string
  | IndexError
  | AttributeError
  | TypeError
  | HTTPException nat string
  | FileNotFoundError string
  | Raised string string

datatype response =
    PlainTextResponse string
  | HTMLResponse string
  | JSONResponse json

subsection \<open>EXIF data\<close>

datatype exif_value =
    ExifInt int
  | ExifText string
  | ExifBytes string
  | ExifRational int int
  | ExifTuple "exif_value list"

text \<open>
  A key of the metadata dict: \<^verbatim>\<open>TAGS.get(tag_id, tag_id)\<close> is the tag's name or, for an
  id the table does not have, the id itself; \<^verbatim>\<open>"error"\<close> is a string key. The dict is the
  list of its items in insertion order.
\<close>

datatype key = StrKey string | IntKey nat

type_synonym metadata = "(key \<times> string) list"

subsection \<open>Effects\<close>

datatype level = INFO | WARNING | ERROR

text \<open>One constructor for each message template the program logs, with its arguments.\<close>

datatype log_msg =
    IncomingWebhook json
  | ReceivedText
  | ImageSaved string
  | ImageMetadata string
  | ImageProcessed string
  | ErrorProcessingImage exn
  | ErrorExtractingMetadata string
  | VerificationRequest string string string
  | WebhookVerified
  | VerificationFailed
  | RootAccessed
  | DebugAccessed

text \<open>
  What a handler does to the outside, in order: a log record, a call of
  \<^verbatim>\<open>client.get(url, headers)\<close> or \<^verbatim>\<open>client.post(url, headers, json)\<close> (the header is
  the value of Authorization), \<^verbatim>\<open>aiofiles.open(path, "wb")\<close>, \<^verbatim>\<open>f.write(bytes)\<close>, and
  \<^verbatim>\<open>Image.open(path)\<close>. The program has no call that removes a file.
\<close>

datatype event =
    Log level log_msg
  | HttpGet string string
  | HttpPost string string json
  | FileOpenWrite string
  | FileWrite string string
  | FileRead string

record world =
  files :: "string \<Rightarrow> string option"
  trace :: "event list"

record http_response =
  content :: string
  json_body :: "exn + json"

text \<open>
  Everything the program takes from its surroundings: the environment variables read at
  import time and by \<^verbatim>\<open>/debug\<close>, the table \<^verbatim>\<open>PIL.ExifTags.TAGS\<close>, Python's renderings
  (\<^verbatim>\<open>str\<close> of a decoded JSON value in an f-string, \<^verbatim>\<open>str\<close> of an EXIF value and of an
  exception, \<^verbatim>\<open>json.dumps(metadata, indent=2)\<close>), the text of
  \<^verbatim>\<open>datetime.now().timestamp()\<close>, and the outcome of every input/output call, which may
  depend on all that happened before.
\<close>

record env =
  WEBHOOK_VERIFY_TOKEN :: "string option"
  GRAPH_API_TOKEN :: "string option"
  PORT :: "string option"
  TAGS :: "nat \<Rightarrow> string option"
  py_str :: "json \<Rightarrow> string"
  exif_str :: "exif_value \<Rightarrow> string"
  exn_str :: "exn \<Rightarrow> string"
  json_dumps :: "metadata \<Rightarrow> string"
  clock :: "world \<Rightarrow> string"
  http_get :: "world \<Rightarrow> string \<Rightarrow> string \<Rightarrow> exn + http_response"
  http_post :: "world \<Rightarrow> string \<Rightarrow> string \<Rightarrow> json \<Rightarrow> exn option"
  fs_open_wb :: "world \<Rightarrow> string \<Rightarrow> exn option"
  fs_write :: "world \<Rightarrow> string \<Rightarrow> string \<Rightarrow> exn option"
  pil_getexif :: "string \<Rightarrow> exn + (nat \<times> exif_value) list option"

text \<open>A computation that may raise: it maps the world to a result and the new world.\<close>

type_synonym 'a io = "world \<Rightarrow> (exn + 'a) \<times> world"

definition io_return :: "'a \<Rightarrow> 'a io" where
  "io_return x w = (Inr x, w)"

definition io_raise :: "exn \<Rightarrow> 'a io" where
  "io_raise e w = (Inl e, w)"

definition io_bind :: "'a io \<Rightarrow> ('a \<Rightarrow> 'b io) \<Rightarrow> 'b io" where
  "io_bind m f w = (case m w of (Inl e, w') \<Rightarrow> (Inl e, w') | (Inr x, w') \<Rightarrow> f x w')"

definition io_lift :: "exn + 'a \<Rightarrow> 'a io" where
  "io_lift r w = (r, w)"

text \<open>\<^verbatim>\<open>try: m  except Exception as e: h(e)\<close>\<close>

definition io_try :: "'a io \<Rightarrow> (exn \<Rightarrow> 'a io) \<Rightarrow> 'a io" where
  "io_try m h w = (case m w of (Inl e, w') \<Rightarrow> h e w' | (Inr x, w') \<Rightarrow> (Inr x, w'))"

definition emit :: "event \<Rightarrow> unit io" where
  "emit ev w = (Inr (), w\<lparr>trace := trace w @ [ev]\<rparr>)"

definition logger :: "level \<Rightarrow> log_msg \<Rightarrow> unit io" where
  "logger l m = emit (Log l m)"

section \<open>Python's operations on decoded JSON\<close>

text \<open>\<^verbatim>\<open>x.get(k, d)\<close>: only a dict has the method.\<close>

definition py_get :: "json \<Rightarrow> string \<Rightarrow> json \<Rightarrow> exn + json" where
  "py_get x k d =
     (case x of
        JObj kvs \<Rightarrow> Inr (case map_of kvs k of Some v \<Rightarrow> v | None \<Rightarrow> d)
      | _ \<Rightarrow> Inl AttributeError)"

text \<open>
  \<^verbatim>\<open>x[0]\<close>: the first element of a list or the first character of a string, IndexError
  when it is empty; a dict decoded from JSON has no key 0; nothing else is subscriptable.
\<close>

definition py_first :: "json \<Rightarrow> exn + json" where
  "py_first x =
     (case x of
        JArr [] \<Rightarrow> Inl IndexError
      | JArr (v # _) \<Rightarrow> Inr v
      | JStr [] \<Rightarrow> Inl IndexError
      | JStr (c # _) \<Rightarrow> Inr (JStr [c])
      | JObj _ \<Rightarrow> Inl (KeyError ''0'')
      | _ \<Rightarrow> Inl TypeError)"

text \<open>\<^verbatim>\<open>x[k]\<close> for a string key \<open>k\<close>.\<close>

definition py_item :: "json \<Rightarrow> string \<Rightarrow> exn + json" where
  "py_item x k =
     (case x of
        JObj kvs \<Rightarrow> (case map_of kvs k of Some v \<Rightarrow> Inr v | None \<Rightarrow> Inl (KeyError k))
      | _ \<Rightarrow> Inl TypeError)"

text \<open>\<^verbatim>\<open>s.split(c)\<close> on a string.\<close>

fun split_on :: "char \<Rightarrow> string \<Rightarrow> string list" where
  "split_on c [] = [[]]"
| "split_on c (x # xs) =
     (if x = c then [] # split_on c xs
      else (case split_on c xs of [] \<Rightarrow> [[x]] | p # ps \<Rightarrow> (x # p) # ps))"

text \<open>\<^verbatim>\<open>mime_type.split("/")[1]\<close>: only a string has \<^verbatim>\<open>split\<close>.\<close>

definition file_extension_of :: "json \<Rightarrow> exn + string" where
  "file_extension_of mime_type =
     (case mime_type of
        JStr s \<Rightarrow> (case split_on (CHR ''/'') s of _ # e # _ \<Rightarrow> Inr e | _ \<Rightarrow> Inl IndexError)
      | _ \<Rightarrow> Inl AttributeError)"

definition sum_bind :: "exn + 'a \<Rightarrow> ('a \<Rightarrow> exn + 'b) \<Rightarrow> exn + 'b" where
  "sum_bind r f = (case r of Inl e \<Rightarrow> Inl e | Inr x \<Rightarrow> f x)"

section \<open>The endpoints without outbound calls\<close>

text \<open>\<^verbatim>\<open>GET /webhook\<close>. A string never equals \<^verbatim>\<open>None\<close>, the value of an unset variable.\<close>

definition verify_webhook :: "env \<Rightarrow> string \<Rightarrow> string \<Rightarrow> string \<Rightarrow> response io" where
  "verify_webhook en hub_mode hub_verify_token hub_challenge =
     io_bind (logger INFO (VerificationRequest hub_mode hub_verify_token hub_challenge)) (\<lambda>_.
       if hub_mode = ''subscribe'' \<and> Some hub_verify_token = WEBHOOK_VERIFY_TOKEN en
       then io_bind (logger INFO WebhookVerified) (\<lambda>_.
              io_return (PlainTextResponse hub_challenge))
       else io_bind (logger WARNING VerificationFailed) (\<lambda>_.
              io_raise (HTTPException 403 ''Forbidden'')))"

text \<open>\<^verbatim>\<open>GET /\<close>\<close>

definition root :: "response io" where
  "root =
     io_bind (logger INFO RootAccessed) (\<lambda>_.
       io_return (HTMLResponse
         (''<pre>Nothing to see here.'' @ [CHR 0x0A] @ ''Checkout README.md to start.</pre>'')))"

definition json_of_opt :: "string option \<Rightarrow> json" where
  "json_of_opt v = (case v of None \<Rightarrow> JNull | Some s \<Rightarrow> JStr s)"

text \<open>
  \<^verbatim>\<open>GRAPH_API_TOKEN[:5] + "..." if GRAPH_API_TOKEN else None\<close>: \<^verbatim>\<open>None\<close> and the empty
  string are both false.
\<close>

definition masked_token :: "string option \<Rightarrow> json" where
  "masked_token t =
     (case t of
        None \<Rightarrow> JNull
      | Some s \<Rightarrow> if s = [] then JNull else JStr (take 5 s @ ''...''))"

text \<open>\<^verbatim>\<open>GET /debug\<close>\<close>

definition debug_info :: "env \<Rightarrow> response io" where
  "debug_info en =
     io_bind (logger INFO DebugAccessed) (\<lambda>_.
       io_return (JSONResponse (JObj
         [(''WEBHOOK_VERIFY_TOKEN'', json_of_opt (WEBHOOK_VERIFY_TOKEN en)),
          (''GRAPH_API_TOKEN'', masked_token (GRAPH_API_TOKEN en)),
          (''PORT'', json_of_opt (PORT en))])))"

section \<open>The image pipeline\<close>

definition bearer :: "env \<Rightarrow> string" where
  "bearer en = ''Bearer '' @ (case GRAPH_API_TOKEN en of None \<Rightarrow> ''None'' | Some t \<Rightarrow> t)"

text \<open>\<^verbatim>\<open>await client.get(url, headers={"Authorization": ...})\<close>\<close>

definition client_get :: "env \<Rightarrow> string \<Rightarrow> http_response io" where
  "client_get en url w = (http_get en w url (bearer en), w\<lparr>trace := trace w @ [HttpGet url (bearer en)]\<rparr>)"

text \<open>The same call on a decoded JSON value: httpx refuses a URL that is not a string.\<close>

definition client_get_value :: "env \<Rightarrow> json \<Rightarrow> http_response io" where
  "client_get_value en url = (case url of JStr s \<Rightarrow> client_get en s | _ \<Rightarrow> io_raise TypeError)"

text \<open>\<^verbatim>\<open>await client.post(url, headers={"Authorization": ...}, json=body)\<close>\<close>

definition client_post :: "env \<Rightarrow> string \<Rightarrow> json \<Rightarrow> unit io" where
  "client_post en url body w =
     ((case http_post en w url (bearer en) body of Some e \<Rightarrow> Inl e | None \<Rightarrow> Inr ()),
      w\<lparr>trace := trace w @ [HttpPost url (bearer en) body]\<rparr>)"

text \<open>\<^verbatim>\<open>aiofiles.open(path, "wb")\<close> creates the file or empties it.\<close>

definition aiofiles_open_wb :: "env \<Rightarrow> string \<Rightarrow> unit io" where
  "aiofiles_open_wb en path w =
     (case fs_open_wb en w path of
        Some e \<Rightarrow> (Inl e, w\<lparr>trace := trace w @ [FileOpenWrite path]\<rparr>)
      | None \<Rightarrow> (Inr (), w\<lparr>files := (files w)(path \<mapsto> []), trace := trace w @ [FileOpenWrite path]\<rparr>))"

definition aiofiles_write :: "env \<Rightarrow> string \<Rightarrow> string \<Rightarrow> unit io" where
  "aiofiles_write en path bytes w =
     (case fs_write en w path bytes of
        Some e \<Rightarrow> (Inl e, w\<lparr>trace := trace w @ [FileWrite path bytes]\<rparr>)
      | None \<Rightarrow> (Inr (), w\<lparr>files := (files w)(path \<mapsto> bytes), trace := trace w @ [FileWrite path bytes]\<rparr>))"

text \<open>\<^verbatim>\<open>os.path.join(a, b)\<close> on POSIX.\<close>

definition os_path_join :: "string \<Rightarrow> string \<Rightarrow> string" where
  "os_path_join a b =
     (if b \<noteq> [] \<and> hd b = CHR ''/'' then b
      else if a = [] \<or> last a = CHR ''/'' then a @ b
      else a @ ''/'' @ b)"

text \<open>\<^verbatim>\<open>with Image.open(image_path) as img: img._getexif()\<close> reads the file at the path.\<close>

definition image_open_getexif :: "env \<Rightarrow> string \<Rightarrow> (nat \<times> exif_value) list option io" where
  "image_open_getexif en path w =
     ((case files w path of
         None \<Rightarrow> Inl (FileNotFoundError path)
       | Some bytes \<Rightarrow> pil_getexif en bytes),
      w\<lparr>trace := trace w @ [FileRead path]\<rparr>)"

text \<open>
  The loop of \<^verbatim>\<open>get_image_metadata\<close>: \<^verbatim>\<open>tag = TAGS.get(tag_id, tag_id)\<close> and
  \<^verbatim>\<open>metadata[tag] = str(value)\<close> for every item. An assignment to a key the dict has
  keeps its place and replaces its value.
\<close>

definition tag_of :: "env \<Rightarrow> nat \<Rightarrow> key" where
  "tag_of en tag_id = (case TAGS en tag_id of Some name \<Rightarrow> StrKey name | None \<Rightarrow> IntKey tag_id)"

fun exif_items :: "env \<Rightarrow> (nat \<times> exif_value) list \<Rightarrow> metadata \<Rightarrow> metadata" where
  "exif_items en [] metadata = metadata"
| "exif_items en ((tag_id, v) # rest) metadata =
     exif_items en rest (AList.update (tag_of en tag_id) (exif_str en v) metadata)"

definition get_image_metadata :: "env \<Rightarrow> string \<Rightarrow> metadata io" where
  "get_image_metadata en image_path =
     io_try
       (io_bind (image_open_getexif en image_path) (\<lambda>exif_data.
          case exif_data of
            Some items \<Rightarrow>
              if items \<noteq> [] then io_return (exif_items en items [])
              else io_return [(StrKey ''error'', ''No EXIF data found'')]
          | None \<Rightarrow> io_return [(StrKey ''error'', ''No EXIF data found'')]))
       (\<lambda>e. io_bind (logger ERROR (ErrorExtractingMetadata (exn_str en e))) (\<lambda>_.
          io_return [(StrKey ''error'', exn_str en e)]))"

definition graph_url :: "env \<Rightarrow> json \<Rightarrow> string" where
  "graph_url en node = ''https://graph.facebook.com/v18.0/'' @ py_str en node"

definition download_and_save_image :: "env \<Rightarrow> json \<Rightarrow> string \<Rightarrow> string io" where
  "download_and_save_image en image_id filename =
     io_bind (client_get en (graph_url en image_id)) (\<lambda>media_url_response.
     io_bind (io_lift (sum_bind (json_body media_url_response) (\<lambda>j. py_item j ''url''))) (\<lambda>media_url.
     io_bind (client_get_value en media_url) (\<lambda>response.
     io_bind (aiofiles_open_wb en (os_path_join ''images'' filename)) (\<lambda>_.
     io_bind (aiofiles_write en (os_path_join ''images'' filename) (content response)) (\<lambda>_.
     io_bind (logger INFO (ImageSaved filename)) (\<lambda>_.
     io_return (os_path_join ''images'' filename)))))))"

section \<open>\<^verbatim>\<open>POST /webhook\<close>\<close>

text \<open>Line 80: the first message of the first change of the first entry, with the defaults.\<close>

definition read_value :: "json \<Rightarrow> exn + json" where
  "read_value body =
     sum_bind (py_get body ''entry'' (JArr [JObj []])) (\<lambda>entry.
     sum_bind (py_first entry) (\<lambda>entry0.
     sum_bind (py_get entry0 ''changes'' (JArr [JObj []])) (\<lambda>changes.
     sum_bind (py_first changes) (\<lambda>change0.
     py_get change0 ''value'' (JObj [])))))"

definition read_message :: "json \<Rightarrow> exn + json" where
  "read_message body =
     sum_bind (read_value body) (\<lambda>v.
     sum_bind (py_get v ''messages'' (JArr [JObj []])) (\<lambda>messages.
     py_first messages))"

text \<open>Line 81.\<close>

definition read_phone_number_id :: "json \<Rightarrow> exn + json" where
  "read_phone_number_id body =
     sum_bind (read_value body) (\<lambda>v.
     sum_bind (py_get v ''metadata'' (JObj [])) (\<lambda>metadata.
     py_get metadata ''phone_number_id'' JNull))"

text \<open>Lines 86 to 90: the image id, the caption and the file extension.\<close>

definition read_image_fields :: "json \<Rightarrow> exn + json \<times> json \<times> string" where
  "read_image_fields message =
     sum_bind (py_item message ''image'') (\<lambda>image1.
     sum_bind (py_item image1 ''id'') (\<lambda>image_id.
     sum_bind (py_item message ''image'') (\<lambda>image2.
     sum_bind (py_item image2 ''mime_type'') (\<lambda>mime_type.
     sum_bind (py_item message ''image'') (\<lambda>image3.
     sum_bind (py_get image3 ''caption'' (JStr ''No caption'')) (\<lambda>caption.
     sum_bind (file_extension_of mime_type) (\<lambda>file_extension.
     Inr (image_id, caption, file_extension))))))))"

text \<open>Line 91, on the text of the clock's reading.\<close>

definition image_filename :: "string \<Rightarrow> string \<Rightarrow> string" where
  "image_filename timestamp file_extension = ''image_'' @ timestamp @ ''.'' @ file_extension"

definition now_timestamp :: "env \<Rightarrow> string io" where
  "now_timestamp en w = (Inr (clock en w), w)"

definition response_message :: "env \<Rightarrow> json \<Rightarrow> metadata \<Rightarrow> string" where
  "response_message en caption metadata =
     ''Image received and saved successfully!'' @ [CHR 0x0A] @ ''Caption: '' @ py_str en caption
       @ [CHR 0x0A, CHR 0x0A] @ ''Metadata:'' @ [CHR 0x0A] @ json_dumps en metadata"

definition messages_url :: "env \<Rightarrow> json \<Rightarrow> string" where
  "messages_url en business_phone_number_id = graph_url en business_phone_number_id @ ''/messages''"

definition summary_reply :: "json \<Rightarrow> json \<Rightarrow> string \<Rightarrow> json" where
  "summary_reply to message_id text =
     JObj [(''messaging_product'', JStr ''whatsapp''),
           (''to'', to),
           (''text'', JObj [(''body'', JStr text)]),
           (''context'', JObj [(''message_id'', message_id)])]"

definition read_receipt :: "json \<Rightarrow> json" where
  "read_receipt message_id =
     JObj [(''messaging_product'', JStr ''whatsapp''),
           (''status'', JStr ''read''),
           (''message_id'', message_id)]"

text \<open>Lines 97 to 125: the log of the metadata, the two sends and the last log.\<close>

definition send_replies :: "env \<Rightarrow> json \<Rightarrow> json \<Rightarrow> json \<Rightarrow> string \<Rightarrow> metadata \<Rightarrow> unit io" where
  "send_replies en message business_phone_number_id caption filename metadata =
     io_bind (logger INFO (ImageMetadata (json_dumps en metadata))) (\<lambda>_.
     io_bind (io_lift (py_item message ''from'')) (\<lambda>sender.
     io_bind (io_lift (py_item message ''id'')) (\<lambda>message_id.
     io_bind (client_post en (messages_url en business_phone_number_id)
                (summary_reply sender message_id (response_message en caption metadata))) (\<lambda>_.
     io_bind (io_lift (py_item message ''id'')) (\<lambda>message_id2.
     io_bind (client_post en (messages_url en business_phone_number_id)
                (read_receipt message_id2)) (\<lambda>_.
     logger INFO (ImageProcessed filename)))))))"

text \<open>Lines 94 to 125, the body of the \<^verbatim>\<open>try\<close>.\<close>

definition process_image :: "env \<Rightarrow> json \<Rightarrow> json \<Rightarrow> json \<Rightarrow> json \<Rightarrow> string \<Rightarrow> unit io" where
  "process_image en message business_phone_number_id image_id caption filename =
     io_bind (download_and_save_image en image_id filename) (\<lambda>image_path.
     io_bind (get_image_metadata en image_path) (\<lambda>metadata.
     send_replies en message business_phone_number_id caption filename metadata))"

definition status_ok :: json where
  "status_ok = JObj [(''status'', JStr ''ok'')]"

text \<open>Lines 85 to 127: the branch of an image message.\<close>

definition handle_image :: "env \<Rightarrow> json \<Rightarrow> json \<Rightarrow> unit io" where
  "handle_image en message business_phone_number_id =
     io_bind (io_lift (read_image_fields message)) (\<lambda>(image_id, caption, file_extension).
     io_bind (now_timestamp en) (\<lambda>timestamp.
     io_try
       (process_image en message business_phone_number_id image_id caption
          (image_filename timestamp file_extension))
       (\<lambda>e. logger ERROR (ErrorProcessingImage e))))"

text \<open>
  The handler. The request is the outcome of \<^verbatim>\<open>await request.json()\<close>: the decoded
  body, or the exception of a body that is not JSON.
\<close>

definition webhook :: "env \<Rightarrow> exn + json \<Rightarrow> json io" where
  "webhook en request =
     io_bind (io_lift request) (\<lambda>body.
     io_bind (logger INFO (IncomingWebhook body)) (\<lambda>_.
     io_bind (io_lift (read_message body)) (\<lambda>message.
     io_bind (io_lift (read_phone_number_id body)) (\<lambda>business_phone_number_id.
     io_bind (io_lift (py_get message ''type'' JNull)) (\<lambda>type1.
     io_bind
       (if type1 = JStr ''text'' then logger INFO ReceivedText
        else io_bind (io_lift (py_get message ''type'' JNull)) (\<lambda>type2.
               if type2 = JStr ''image'' then handle_image en message business_phone_number_id
               else io_return ())) (\<lambda>_.
     io_return status_ok))))))"

section \<open>Observations on a trace\<close>

fun is_http_call :: "event \<Rightarrow> bool" where
  "is_http_call (HttpGet _ _) = True"
| "is_http_call (HttpPost _ _ _) = True"
| "is_http_call _ = False"

fun is_file_access :: "event \<Rightarrow> bool" where
  "is_file_access (FileOpenWrite _) = True"
| "is_file_access (FileWrite _ _) = True"
| "is_file_access (FileRead _) = True"
| "is_file_access _ = False"

text \<open>The bodies posted to the messaging platform, in order.\<close>

fun posts_of :: "event list \<Rightarrow> json list" where
  "posts_of [] = []"
| "posts_of (HttpPost _ _ body # evs) = body # posts_of evs"
| "posts_of (_ # evs) = posts_of evs"

text \<open>The exceptions that the guard of the handler has logged.\<close>

fun guard_errors :: "event list \<Rightarrow> exn list" where
  "guard_errors [] = []"
| "guard_errors (Log ERROR (ErrorProcessingImage e) # evs) = e # guard_errors evs"
| "guard_errors (_ # evs) = guard_errors evs"

fun written_paths :: "event list \<Rightarrow> string list" where
  "written_paths [] = []"
| "written_paths (FileWrite path _ # evs) = path # written_paths evs"
| "written_paths (_ # evs) = written_paths evs"

section \<open>A test environment\<close>

text \<open>
  An environment in which every call succeeds, with simple renderings, a clock that stands
  still and a table of one tag; two image messages, and an empty world.
\<close>

definition demo_env :: env where
  "demo_env =
     \<lparr>WEBHOOK_VERIFY_TOKEN = Some ''secret'',
      GRAPH_API_TOKEN = Some ''EAAGm0PX4ZCps'',
      PORT = Some ''8000'',
      TAGS = (\<lambda>n. if n = 271 then Some ''Make'' else None),
      py_str = (\<lambda>j. case j of JStr s \<Rightarrow> s | JNull \<Rightarrow> ''None'' | _ \<Rightarrow> []),
      exif_str = (\<lambda>v. case v of ExifText s \<Rightarrow> s | _ \<Rightarrow> []),
      exn_str = (\<lambda>e. case e of Raised _ msg \<Rightarrow> msg | FileNotFoundError path \<Rightarrow> path | _ \<Rightarrow> []),
      json_dumps = (\<lambda>md. concat (map snd md)),
      clock = (\<lambda>_. ''1700000000.5''),
      http_get = (\<lambda>_ url _.
        if url = ''https://graph.facebook.com/v18.0/m1''
        then Inr \<lparr>content = [], json_body = Inr (JObj [(''url'', JStr ''https://cdn/m1'')])\<rparr>
        else Inr \<lparr>content = ''JFIF'', json_body = Inl (Raised ''JSONDecodeError'' [])\<rparr>),
      http_post = (\<lambda>_ _ _ _. None),
      fs_open_wb = (\<lambda>_ _. None),
      fs_write = (\<lambda>_ _ _. None),
      pil_getexif = (\<lambda>_. Inr (Some [(271, ExifText ''Canon'')]))\<rparr>"

definition image_message :: "string \<Rightarrow> json" where
  "image_message message_id =
     JObj [(''from'', JStr ''4915''),
           (''id'', JStr message_id),
           (''type'', JStr ''image''),
           (''image'', JObj [(''id'', JStr ''m1''), (''mime_type'', JStr ''image/jpeg'')])]"

definition image_payload :: "string \<Rightarrow> json" where
  "image_payload message_id =
     JObj [(''entry'', JArr [JObj [(''changes'', JArr [JObj [(''value'', JObj
       [(''metadata'', JObj [(''phone_number_id'', JStr ''1055'')]),
        (''messages'', JArr [image_message message_id])])]])]])]"

definition empty_world :: world where
  "empty_world = \<lparr>files = (\<lambda>_. None), trace = []\<rparr>"


definition offline_env :: env where
  "offline_env =
     demo_env\<lparr>http_get := (\<lambda>_ _ _. Inl (Raised ''ConnectError'' ''All connection attempts failed''))\<rparr>"

text \<open>
  Two more: the sends fail, and the clock reads a later time.
\<close>

definition send_failure_env :: env where
  "send_failure_env =
     demo_env\<lparr>http_post := (\<lambda>_ _ _ _. Some (Raised ''ConnectError'' ''All connection attempts failed''))\<rparr>"

definition later_env :: env where
  "later_env = demo_env\<lparr>clock := (\<lambda>_. ''1700000000.75'')\<rparr>"

section \<open>The text of a timestamp\<close>

text \<open>
  \<^verbatim>\<open>datetime.now().timestamp()\<close> is a float of about ten digits before the point, which
  Python renders without an exponent: digits, a point, digits.
\<close>

definition is_digit :: "char \<Rightarrow> bool" where
  "is_digit c = (c \<in> set ''0123456789'')"

definition timestamp_text :: "string \<Rightarrow> bool" where
  "timestamp_text t =
     (case dropWhile is_digit t of
        [] \<Rightarrow> False
      | c # frac \<Rightarrow>
          takeWhile is_digit t \<noteq> [] \<and> c = CHR ''.'' \<and> frac \<noteq> [] \<and> list_all is_digit frac)"

section \<open>The payload of the messaging platform\<close>

text \<open>
  Modelled from the spec: the repository declares no type for "the messaging-platform's
  webhook JSON payload" that \<^verbatim>\<open>POST /webhook\<close> accepts. A notification of the platform is
  an object; its \<^verbatim>\<open>entry\<close> is a non-empty list of objects, the \<^verbatim>\<open>changes\<close> of an entry a
  non-empty list of objects, the \<^verbatim>\<open>value\<close> of a change an object whose \<^verbatim>\<open>metadata\<close> is an
  object and whose \<^verbatim>\<open>messages\<close> is a non-empty list of message objects; an image message
  has an \<^verbatim>\<open>image\<close> object with an \<^verbatim>\<open>id\<close> and a \<^verbatim>\<open>mime_type\<close> of the form type/subtype.
  Any of these fields may be absent (a status notification has no messages).
\<close>

definition optional :: "(string \<times> json) list \<Rightarrow> string \<Rightarrow> (json \<Rightarrow> bool) \<Rightarrow> bool" where
  "optional kvs k P = (case map_of kvs k of None \<Rightarrow> True | Some v \<Rightarrow> P v)"

definition is_object :: "json \<Rightarrow> bool" where
  "is_object v = (case v of JObj _ \<Rightarrow> True | _ \<Rightarrow> False)"

definition nonempty_list :: "(json \<Rightarrow> bool) \<Rightarrow> json \<Rightarrow> bool" where
  "nonempty_list P v = (case v of JArr (x # xs) \<Rightarrow> P x \<and> list_all P xs | _ \<Rightarrow> False)"

definition platform_image :: "json \<Rightarrow> bool" where
  "platform_image v =
     (case v of
        JObj kvs \<Rightarrow>
          map_of kvs ''id'' \<noteq> None \<and>
          (case map_of kvs ''mime_type'' of Some (JStr s) \<Rightarrow> CHR ''/'' \<in> set s | _ \<Rightarrow> False)
      | _ \<Rightarrow> False)"

definition platform_message :: "json \<Rightarrow> bool" where
  "platform_message m =
     (case m of
        JObj kvs \<Rightarrow>
          (if map_of kvs ''type'' = Some (JStr ''image'')
           then (case map_of kvs ''image'' of Some v \<Rightarrow> platform_image v | None \<Rightarrow> False)
           else True)
      | _ \<Rightarrow> False)"

definition platform_value :: "json \<Rightarrow> bool" where
  "platform_value v =
     (case v of
        JObj kvs \<Rightarrow>
          optional kvs ''metadata'' is_object \<and>
          optional kvs ''messages'' (nonempty_list platform_message)
      | _ \<Rightarrow> False)"

definition platform_change :: "json \<Rightarrow> bool" where
  "platform_change c =
     (case c of JObj kvs \<Rightarrow> optional kvs ''value'' platform_value | _ \<Rightarrow> False)"

definition platform_entry :: "json \<Rightarrow> bool" where
  "platform_entry e =
     (case e of JObj kvs \<Rightarrow> optional kvs ''changes'' (nonempty_list platform_change) | _ \<Rightarrow> False)"

definition platform_payload :: "json \<Rightarrow> bool" where
  "platform_payload body =
     (case body of JObj kvs \<Rightarrow> optional kvs ''entry'' (nonempty_list platform_entry) | _ \<Rightarrow> False)"

section \<open>A frame condition\<close>


section \<open>Runs of the image pipeline\<close>

lemmas io_defs = io_bind_def io_return_def io_raise_def io_lift_def io_try_def emit_def logger_def

lemma download_success:
  assumes "download_and_save_image en image_id fn w = (Inr p, w')"
  shows "\<exists>media_url bytes.
           p = os_path_join ''images'' fn \<and>
           w' = w\<lparr>files := (files w)(p \<mapsto> bytes),
                  trace := trace w @
                    [HttpGet (graph_url en image_id) (bearer en),
                     HttpGet media_url (bearer en),
                     FileOpenWrite p, FileWrite p bytes, Log INFO (ImageSaved fn)]\<rparr>"
  using assms
  unfolding download_and_save_image_def client_get_def client_get_value_def
    aiofiles_open_wb_def aiofiles_write_def io_defs
  by (auto split: sum.splits option.splits json.splits prod.splits if_splits)

lemma get_image_metadata_run:
  "\<exists>md lg. get_image_metadata en p w = (Inr md, w\<lparr>trace := trace w @ FileRead p # lg\<rparr>) \<and>
     (lg = [] \<or> (\<exists>s. lg = [Log ERROR (ErrorExtractingMetadata s)] \<and> md = [(StrKey ''error'', s)]))"
  unfolding get_image_metadata_def image_open_getexif_def io_defs
  by (auto split: sum.splits option.splits prod.splits if_splits)

lemma send_replies_success:
  assumes "send_replies en message phone caption fn md w = (Inr u, w')"
  shows "\<exists>sender mid.
           py_item message ''from'' = Inr sender \<and> py_item message ''id'' = Inr mid \<and>
           w' = w\<lparr>trace := trace w @
                  [Log INFO (ImageMetadata (json_dumps en md)),
                   HttpPost (messages_url en phone) (bearer en)
                     (summary_reply sender mid (response_message en caption md)),
                   HttpPost (messages_url en phone) (bearer en) (read_receipt mid),
                   Log INFO (ImageProcessed fn)]\<rparr>"
  using assms
  unfolding send_replies_def client_post_def io_defs
  by (auto split: sum.splits option.splits prod.splits if_splits)

lemmas run_defs = webhook_def demo_env_def image_payload_def image_message_def empty_world_def
  read_message_def read_value_def read_phone_number_id_def sum_bind_def py_get_def py_first_def
  py_item_def handle_image_def read_image_fields_def file_extension_of_def now_timestamp_def
  process_image_def download_and_save_image_def client_get_def client_get_value_def graph_url_def
  bearer_def aiofiles_open_wb_def aiofiles_write_def os_path_join_def image_filename_def
  get_image_metadata_def image_open_getexif_def tag_of_def send_replies_def client_post_def
  messages_url_def status_ok_def summary_reply_def read_receipt_def response_message_def

lemma process_image_success:
  assumes "process_image en message phone image_id caption fn w = (Inr u, w')"
  shows "\<exists>media_url bytes md lg sender mid.
           py_item message ''from'' = Inr sender \<and> py_item message ''id'' = Inr mid \<and>
           (lg = [] \<or> (\<exists>s. lg = [Log ERROR (ErrorExtractingMetadata s)] \<and> md = [(StrKey ''error'', s)])) \<and>
           w' = w\<lparr>files := (files w)(os_path_join ''images'' fn \<mapsto> bytes),
                  trace := trace w @
                    [HttpGet (graph_url en image_id) (bearer en),
                     HttpGet media_url (bearer en),
                     FileOpenWrite (os_path_join ''images'' fn),
                     FileWrite (os_path_join ''images'' fn) bytes,
                     Log INFO (ImageSaved fn),
                     FileRead (os_path_join ''images'' fn)] @ lg @
                    [Log INFO (ImageMetadata (json_dumps en md)),
                     HttpPost (messages_url en phone) (bearer en)
                       (summary_reply sender mid (response_message en caption md)),
                     HttpPost (messages_url en phone) (bearer en) (read_receipt mid),
                     Log INFO (ImageProcessed fn)]\<rparr>"
proof -
  obtain r1 w1 where d: "download_and_save_image en image_id fn w = (r1, w1)"
    by (cases "download_and_save_image en image_id fn w")
  with assms obtain p where r1: "r1 = Inr p"
    by (cases r1) (auto simp: process_image_def io_bind_def)
  from download_success [OF d [unfolded r1]] obtain media_url bytes where
    p: "p = os_path_join ''images'' fn" and
    w1: "w1 = w\<lparr>files := (files w)(p \<mapsto> bytes),
                  trace := trace w @
                    [HttpGet (graph_url en image_id) (bearer en),
                     HttpGet media_url (bearer en),
                     FileOpenWrite p, FileWrite p bytes, Log INFO (ImageSaved fn)]\<rparr>"
    by blast
  from get_image_metadata_run [of en p w1] obtain md lg where
    g: "get_image_metadata en p w1 = (Inr md, w1\<lparr>trace := trace w1 @ FileRead p # lg\<rparr>)" and
    lg: "lg = [] \<or> (\<exists>s. lg = [Log ERROR (ErrorExtractingMetadata s)] \<and> md = [(StrKey ''error'', s)])"
    by blast
  from assms d r1 g have
    s: "send_replies en message phone caption fn md (w1\<lparr>trace := trace w1 @ FileRead p # lg\<rparr>) = (Inr u, w')"
    by (simp add: process_image_def io_bind_def)
  from send_replies_success [OF s] obtain sender mid where
    "py_item message ''from'' = Inr sender" "py_item message ''id'' = Inr mid" and
    w': "w' = w1\<lparr>trace := trace w1 @ FileRead p # lg\<rparr>\<lparr>trace := trace (w1\<lparr>trace := trace w1 @ FileRead p # lg\<rparr>) @
                  [Log INFO (ImageMetadata (json_dumps en md)),
                   HttpPost (messages_url en phone) (bearer en)
                     (summary_reply sender mid (response_message en caption md)),
                   HttpPost (messages_url en phone) (bearer en) (read_receipt mid),
                   Log INFO (ImageProcessed fn)]\<rparr>"
    by blast
  then show ?thesis
    using lg by (simp add: w1 p) blast
qed

lemma webhook_image_run:
  assumes "read_message body = Inr message"
    and "read_phone_number_id body = Inr phone"
    and "py_get message ''type'' JNull = Inr (JStr ''image'')"
    and "read_image_fields message = Inr (image_id, caption, ext)"
    and "w1 = w\<lparr>trace := trace w @ [Log INFO (IncomingWebhook body)]\<rparr>"
    and "fn = image_filename (clock en w1) ext"
  shows "webhook en (Inr body) w =
           (Inr status_ok,
            (case process_image en message phone image_id caption fn w1 of
               (Inl e, w2) \<Rightarrow> w2\<lparr>trace := trace w2 @ [Log ERROR (ErrorProcessingImage e)]\<rparr>
             | (Inr u, w2) \<Rightarrow> w2))"
  using assms
  unfolding webhook_def handle_image_def now_timestamp_def io_defs
  by (simp split: prod.splits sum.splits)

text \<open>
  The same runs in more detail: where the URL, the bytes and the metadata come from, and
  what a run that fails has done to the files.
\<close>

lemma download_detail:
  assumes "download_and_save_image en image_id fn w = (Inr p, w')"
  shows "\<exists>r1 kvs media_url r2.
           http_get en w (graph_url en image_id) (bearer en) = Inr r1 \<and>
           json_body r1 = Inr (JObj kvs) \<and> map_of kvs ''url'' = Some (JStr media_url) \<and>
           http_get en (w\<lparr>trace := trace w @ [HttpGet (graph_url en image_id) (bearer en)]\<rparr>)
             media_url (bearer en) = Inr r2 \<and>
           p = os_path_join ''images'' fn \<and>
           w' = w\<lparr>files := (files w)(p \<mapsto> content r2),
                  trace := trace w @
                    [HttpGet (graph_url en image_id) (bearer en),
                     HttpGet media_url (bearer en),
                     FileOpenWrite p, FileWrite p (content r2), Log INFO (ImageSaved fn)]\<rparr>"
  using assms
  unfolding download_and_save_image_def client_get_def client_get_value_def
    aiofiles_open_wb_def aiofiles_write_def io_defs sum_bind_def py_item_def
  by (auto split: sum.splits option.splits json.splits prod.splits if_splits)

lemma metadata_detail:
  assumes "files w p = Some b"
  shows "\<exists>md lg. get_image_metadata en p w = (Inr md, w\<lparr>trace := trace w @ FileRead p # lg\<rparr>) \<and>
     (case pil_getexif en b of
        Inl e \<Rightarrow> md = [(StrKey ''error'', exn_str en e)] \<and>
                 lg = [Log ERROR (ErrorExtractingMetadata (exn_str en e))]
      | Inr None \<Rightarrow> md = [(StrKey ''error'', ''No EXIF data found'')] \<and> lg = []
      | Inr (Some items) \<Rightarrow>
          md = (if items = [] then [(StrKey ''error'', ''No EXIF data found'')]
                else exif_items en items []) \<and> lg = [])"
  using assms
  unfolding get_image_metadata_def image_open_getexif_def io_defs
  by (auto split: sum.splits option.splits prod.splits if_splits)

lemma send_replies_any:
  assumes "send_replies en message phone caption fn md w = (r, w')"
  shows "files w' = files w \<and>
         (\<exists>evs. trace w' = trace w @ evs \<and> filter is_file_access evs = [])"
  using assms
  unfolding send_replies_def client_post_def io_defs
  by (auto split: sum.splits option.splits prod.splits if_splits)


lemma process_image_detail:
  assumes "process_image en message phone image_id caption fn w = (Inr u, w')"
  shows "\<exists>r1 kvs media_url r2 md lg sender mid.
           http_get en w (graph_url en image_id) (bearer en) = Inr r1 \<and>
           json_body r1 = Inr (JObj kvs) \<and> map_of kvs ''url'' = Some (JStr media_url) \<and>
           http_get en (w\<lparr>trace := trace w @ [HttpGet (graph_url en image_id) (bearer en)]\<rparr>)
             media_url (bearer en) = Inr r2 \<and>
           (case pil_getexif en (content r2) of
              Inl e \<Rightarrow> md = [(StrKey ''error'', exn_str en e)] \<and>
                       lg = [Log ERROR (ErrorExtractingMetadata (exn_str en e))]
            | Inr None \<Rightarrow> md = [(StrKey ''error'', ''No EXIF data found'')] \<and> lg = []
            | Inr (Some items) \<Rightarrow>
                md = (if items = [] then [(StrKey ''error'', ''No EXIF data found'')]
                      else exif_items en items []) \<and> lg = []) \<and>
           py_item message ''from'' = Inr sender \<and> py_item message ''id'' = Inr mid \<and>
           w' = w\<lparr>files := (files w)(os_path_join ''images'' fn \<mapsto> content r2),
                  trace := trace w @
                    [HttpGet (graph_url en image_id) (bearer en),
                     HttpGet media_url (bearer en),
                     FileOpenWrite (os_path_join ''images'' fn),
                     FileWrite (os_path_join ''images'' fn) (content r2),
                     Log INFO (ImageSaved fn),
                     FileRead (os_path_join ''images'' fn)] @ lg @
                    [Log INFO (ImageMetadata (json_dumps en md)),
                     HttpPost (messages_url en phone) (bearer en)
                       (summary_reply sender mid (response_message en caption md)),
                     HttpPost (messages_url en phone) (bearer en) (read_receipt mid),
                     Log INFO (ImageProcessed fn)]\<rparr>"
proof -
  obtain r w1 where d: "download_and_save_image en image_id fn w = (r, w1)"
    by (cases "download_and_save_image en image_id fn w")
  with assms obtain p where r: "r = Inr p"
    by (cases r) (auto simp: process_image_def io_bind_def)
  from download_detail [OF d [unfolded r]] obtain r1 kvs media_url r2 where
    g1: "http_get en w (graph_url en image_id) (bearer en) = Inr r1" and
    j: "json_body r1 = Inr (JObj kvs)" "map_of kvs ''url'' = Some (JStr media_url)" and
    g2: "http_get en (w\<lparr>trace := trace w @ [HttpGet (graph_url en image_id) (bearer en)]\<rparr>)
             media_url (bearer en) = Inr r2" and
    p: "p = os_path_join ''images'' fn" and
    w1: "w1 = w\<lparr>files := (files w)(p \<mapsto> content r2),
                  trace := trace w @
                    [HttpGet (graph_url en image_id) (bearer en),
                     HttpGet media_url (bearer en),
                     FileOpenWrite p, FileWrite p (content r2), Log INFO (ImageSaved fn)]\<rparr>"
    by blast
  have "files w1 p = Some (content r2)" by (simp add: w1)
  from metadata_detail [OF this, of en] obtain md lg where
    g: "get_image_metadata en p w1 = (Inr md, w1\<lparr>trace := trace w1 @ FileRead p # lg\<rparr>)" and
    md: "case pil_getexif en (content r2) of
              Inl e \<Rightarrow> md = [(StrKey ''error'', exn_str en e)] \<and>
                       lg = [Log ERROR (ErrorExtractingMetadata (exn_str en e))]
            | Inr None \<Rightarrow> md = [(StrKey ''error'', ''No EXIF data found'')] \<and> lg = []
            | Inr (Some items) \<Rightarrow>
                md = (if items = [] then [(StrKey ''error'', ''No EXIF data found'')]
                      else exif_items en items []) \<and> lg = []"
    by blast
  from assms d r g have
    s: "send_replies en message phone caption fn md (w1\<lparr>trace := trace w1 @ FileRead p # lg\<rparr>) = (Inr u, w')"
    by (simp add: process_image_def io_bind_def)
  from send_replies_success [OF s] obtain sender mid where
    m: "py_item message ''from'' = Inr sender" "py_item message ''id'' = Inr mid" and
    w': "w' = w1\<lparr>trace := trace w1 @ FileRead p # lg\<rparr>\<lparr>trace := trace (w1\<lparr>trace := trace w1 @ FileRead p # lg\<rparr>) @
                  [Log INFO (ImageMetadata (json_dumps en md)),
                   HttpPost (messages_url en phone) (bearer en)
                     (summary_reply sender mid (response_message en caption md)),
                   HttpPost (messages_url en phone) (bearer en) (read_receipt mid),
                   Log INFO (ImageProcessed fn)]\<rparr>"
    by blast
  have "w' = w\<lparr>files := (files w)(os_path_join ''images'' fn \<mapsto> content r2),
                  trace := trace w @
                    [HttpGet (graph_url en image_id) (bearer en),
                     HttpGet media_url (bearer en),
                     FileOpenWrite (os_path_join ''images'' fn),
                     FileWrite (os_path_join ''images'' fn) (content r2),
                     Log INFO (ImageSaved fn),
                     FileRead (os_path_join ''images'' fn)] @ lg @
                    [Log INFO (ImageMetadata (json_dumps en md)),
                     HttpPost (messages_url en phone) (bearer en)
                       (summary_reply sender mid (response_message en caption md)),
                     HttpPost (messages_url en phone) (bearer en) (read_receipt mid),
                     Log INFO (ImageProcessed fn)]\<rparr>"
    by (simp add: w' w1 p)
  with g1 j g2 md m show ?thesis by blast
qed

lemma webhook_saved_run:
  assumes "read_message body = Inr message"
    and "read_phone_number_id body = Inr phone"
    and "py_get message ''type'' JNull = Inr (JStr ''image'')"
    and "read_image_fields message = Inr (image_id, caption, ext)"
    and "w1 = w\<lparr>trace := trace w @ [Log INFO (IncomingWebhook body)]\<rparr>"
    and "fn = image_filename (clock en w1) ext"
    and "download_and_save_image en image_id fn w1 = (Inr p, w2)"
  shows "p = os_path_join ''images'' fn \<and>
         (\<exists>b evs. files w2 p = Some b \<and>
            fst (webhook en (Inr body) w) = Inr status_ok \<and>
            files (snd (webhook en (Inr body) w)) = (files w)(p \<mapsto> b) \<and>
            trace (snd (webhook en (Inr body) w)) = trace w @ evs \<and>
            filter is_file_access evs = [FileOpenWrite p, FileWrite p b, FileRead p])"
proof -
  from download_success [OF assms(7)] obtain media_url b where
    p: "p = os_path_join ''images'' fn" and
    w2: "w2 = w1\<lparr>files := (files w1)(p \<mapsto> b),
                  trace := trace w1 @
                    [HttpGet (graph_url en image_id) (bearer en),
                     HttpGet media_url (bearer en),
                     FileOpenWrite p, FileWrite p b, Log INFO (ImageSaved fn)]\<rparr>"
    by blast
  from get_image_metadata_run [of en p w2] obtain md lg where
    g: "get_image_metadata en p w2 = (Inr md, w2\<lparr>trace := trace w2 @ FileRead p # lg\<rparr>)" and
    lg: "lg = [] \<or> (\<exists>s. lg = [Log ERROR (ErrorExtractingMetadata s)] \<and> md = [(StrKey ''error'', s)])"
    by blast
  from lg have lg0: "filter is_file_access lg = []" by auto
  let ?w3 = "w2\<lparr>trace := trace w2 @ FileRead p # lg\<rparr>"
  obtain r w4 where s: "send_replies en message phone caption fn md ?w3 = (r, w4)"
    by (cases "send_replies en message phone caption fn md ?w3")
  from send_replies_any [OF s] obtain sevs where
    f4: "files w4 = files ?w3" and t4: "trace w4 = trace ?w3 @ sevs" and
    s0: "filter is_file_access sevs = []"
    by blast
  have pr: "process_image en message phone image_id caption fn w1 = (r, w4)"
    by (simp add: process_image_def io_bind_def assms(7) g s)
  note run = webhook_image_run [OF assms(1-6)]
  show ?thesis
  proof (cases r)
    case (Inl e)
    with run pr have "webhook en (Inr body) w =
        (Inr status_ok, w4\<lparr>trace := trace w4 @ [Log ERROR (ErrorProcessingImage e)]\<rparr>)"
      by simp
    then show ?thesis
      using p lg0 s0 by (simp add: f4 t4 w2 assms(5))
  next
    case (Inr u)
    with run pr have "webhook en (Inr body) w = (Inr status_ok, w4)"
      by simp
    then show ?thesis
      using p lg0 s0 by (simp add: f4 t4 w2 assms(5))
  qed
qed




section \<open>The endpoints without outbound calls: results\<close>

text \<open>
  Claim C1. For every \<^verbatim>\<open>GET /webhook\<close> request with the three query parameters, the
  response is the plain-text echo of \<^verbatim>\<open>hub.challenge\<close> if and only if \<^verbatim>\<open>hub.mode\<close> is
  \<^verbatim>\<open>"subscribe"\<close> and \<^verbatim>\<open>hub.verify_token\<close> equals the configured
  \<^verbatim>\<open>WEBHOOK_VERIFY_TOKEN\<close>; in every other case the endpoint raises HTTP 403.
\<close>

theorem verify_webhook_echo_iff:
  "(fst (verify_webhook en hub_mode hub_verify_token hub_challenge w) =
      Inr (PlainTextResponse hub_challenge)
    \<longleftrightarrow> hub_mode = ''subscribe'' \<and> WEBHOOK_VERIFY_TOKEN en = Some hub_verify_token) \<and>
   (\<not> (hub_mode = ''subscribe'' \<and> WEBHOOK_VERIFY_TOKEN en = Some hub_verify_token)
    \<longrightarrow> fst (verify_webhook en hub_mode hub_verify_token hub_challenge w) =
          Inl (HTTPException 403 ''Forbidden''))"
  by (auto simp: verify_webhook_def io_defs)

text \<open>The right token is echoed; a wrong token and a wrong mode are refused.\<close>

theorem verify_webhook_echo_iff_witness:
  "fst (verify_webhook demo_env ''subscribe'' ''secret'' ''1158201444'' empty_world) =
     Inr (PlainTextResponse ''1158201444'') \<and>
   fst (verify_webhook demo_env ''subscribe'' ''guess'' ''1158201444'' empty_world) =
     Inl (HTTPException 403 ''Forbidden'') \<and>
   fst (verify_webhook demo_env ''unsubscribe'' ''secret'' ''1158201444'' empty_world) =
     Inl (HTTPException 403 ''Forbidden'')"
  using verify_webhook_echo_iff [of demo_env "''subscribe''" "''secret''" "''1158201444''" empty_world]
    verify_webhook_echo_iff [of demo_env "''subscribe''" "''guess''" "''1158201444''" empty_world]
    verify_webhook_echo_iff [of demo_env "''unsubscribe''" "''secret''" "''1158201444''" empty_world]
  by (simp add: demo_env_def)

text \<open>
  Claim C8. The response of \<^verbatim>\<open>GET /debug\<close> has three entries: the whole
  \<^verbatim>\<open>WEBHOOK_VERIFY_TOKEN\<close>; for \<^verbatim>\<open>GRAPH_API_TOKEN\<close> null when the token is unset (or
  empty) and otherwise its first five characters followed by three dots, so that two
  tokens with the same first five characters give the same response; and \<^verbatim>\<open>PORT\<close>.
\<close>

theorem debug_info_discloses:
  "\<exists>g. fst (debug_info en w) =
          Inr (JSONResponse (JObj
            [(''WEBHOOK_VERIFY_TOKEN'', json_of_opt (WEBHOOK_VERIFY_TOKEN en)),
             (''GRAPH_API_TOKEN'', g),
             (''PORT'', json_of_opt (PORT en))])) \<and>
       (GRAPH_API_TOKEN en = None \<or> GRAPH_API_TOKEN en = Some [] \<longrightarrow> g = JNull) \<and>
       (\<forall>t. GRAPH_API_TOKEN en = Some t \<and> t \<noteq> [] \<longrightarrow> g = JStr (take 5 t @ ''...'')) \<and>
       (\<forall>t t'. take 5 t = take 5 t' \<and> t \<noteq> [] \<and> t' \<noteq> [] \<longrightarrow>
          debug_info (en\<lparr>GRAPH_API_TOKEN := Some t\<rparr>) w =
          debug_info (en\<lparr>GRAPH_API_TOKEN := Some t'\<rparr>) w)"
  by (auto simp: debug_info_def masked_token_def io_defs)

text \<open>
  A token of thirteen characters is cut to five, an unset token gives null, and a token
  with the same first five characters gives the same response.
\<close>

theorem debug_info_discloses_witness:
  "fst (debug_info demo_env empty_world) =
     Inr (JSONResponse (JObj
       [(''WEBHOOK_VERIFY_TOKEN'', JStr ''secret''),
        (''GRAPH_API_TOKEN'', JStr ''EAAGm...''),
        (''PORT'', JStr ''8000'')])) \<and>
   fst (debug_info (demo_env\<lparr>GRAPH_API_TOKEN := None\<rparr>) empty_world) =
     Inr (JSONResponse (JObj
       [(''WEBHOOK_VERIFY_TOKEN'', JStr ''secret''),
        (''GRAPH_API_TOKEN'', JNull),
        (''PORT'', JStr ''8000'')])) \<and>
   debug_info (demo_env\<lparr>GRAPH_API_TOKEN := Some ''EAAGm0PX4ZCps''\<rparr>) empty_world =
     debug_info (demo_env\<lparr>GRAPH_API_TOKEN := Some ''EAAGm1''\<rparr>) empty_world"
proof -
  from debug_info_discloses [of demo_env empty_world]
  have same: "\<forall>t t'. take 5 t = take 5 t' \<and> t \<noteq> [] \<and> t' \<noteq> [] \<longrightarrow>
      debug_info (demo_env\<lparr>GRAPH_API_TOKEN := Some t\<rparr>) empty_world =
      debug_info (demo_env\<lparr>GRAPH_API_TOKEN := Some t'\<rparr>) empty_world"
    by blast
  have "debug_info (demo_env\<lparr>GRAPH_API_TOKEN := Some ''EAAGm0PX4ZCps''\<rparr>) empty_world =
     debug_info (demo_env\<lparr>GRAPH_API_TOKEN := Some ''EAAGm1''\<rparr>) empty_world"
    by (rule same [rule_format]) simp
  moreover have "fst (debug_info demo_env empty_world) =
     Inr (JSONResponse (JObj
       [(''WEBHOOK_VERIFY_TOKEN'', JStr ''secret''),
        (''GRAPH_API_TOKEN'', JStr ''EAAGm...''),
        (''PORT'', JStr ''8000'')]))"
    using debug_info_discloses [of demo_env empty_world]
    by (auto simp: demo_env_def json_of_opt_def)
  moreover have "fst (debug_info (demo_env\<lparr>GRAPH_API_TOKEN := None\<rparr>) empty_world) =
     Inr (JSONResponse (JObj
       [(''WEBHOOK_VERIFY_TOKEN'', JStr ''secret''),
        (''GRAPH_API_TOKEN'', JNull),
        (''PORT'', JStr ''8000'')]))"
    using debug_info_discloses [of "demo_env\<lparr>GRAPH_API_TOKEN := None\<rparr>" empty_world]
    by (auto simp: demo_env_def json_of_opt_def)
  ultimately show ?thesis by blast
qed

subsection \<open>The metadata dict\<close>







section \<open>No request removes a file\<close>













section \<open>An image message processed without error\<close>

text \<open>
  The test payload is read without error, and its image is processed without error.
\<close>

lemma demo_read:
  "read_message (image_payload m) = Inr (image_message m)"
  "read_phone_number_id (image_payload m) = Inr (JStr ''1055'')"
  "py_get (image_message m) ''type'' JNull = Inr (JStr ''image'')"
  "read_image_fields (image_message m) = Inr (JStr ''m1'', JStr ''No caption'', ''jpeg'')"
  by (simp_all add: read_message_def read_value_def read_phone_number_id_def read_image_fields_def
      image_payload_def image_message_def sum_bind_def py_get_def py_first_def py_item_def
      file_extension_of_def)

lemma demo_process:
  "process_image demo_env (image_message m) (JStr ''1055'') (JStr ''m1'') (JStr ''No caption'')
     (image_filename (clock demo_env w1) ''jpeg'') w1 =
   (Inr (),
    w1\<lparr>files := (files w1)(''images/image_1700000000.5.jpeg'' \<mapsto> ''JFIF''),
       trace := trace w1 @
         [HttpGet ''https://graph.facebook.com/v18.0/m1'' ''Bearer EAAGm0PX4ZCps'',
          HttpGet ''https://cdn/m1'' ''Bearer EAAGm0PX4ZCps'',
          FileOpenWrite ''images/image_1700000000.5.jpeg'',
          FileWrite ''images/image_1700000000.5.jpeg'' ''JFIF'',
          Log INFO (ImageSaved ''image_1700000000.5.jpeg''),
          FileRead ''images/image_1700000000.5.jpeg'',
          Log INFO (ImageMetadata ''Canon''),
          HttpPost ''https://graph.facebook.com/v18.0/1055/messages'' ''Bearer EAAGm0PX4ZCps''
            (summary_reply (JStr ''4915'') (JStr m)
               (response_message demo_env (JStr ''No caption'') [(StrKey ''Make'', ''Canon'')])),
          HttpPost ''https://graph.facebook.com/v18.0/1055/messages'' ''Bearer EAAGm0PX4ZCps''
            (read_receipt (JStr m)),
          Log INFO (ImageProcessed ''image_1700000000.5.jpeg'')]\<rparr>)"
  by (simp add: process_image_def download_and_save_image_def get_image_metadata_def
      send_replies_def image_open_getexif_def client_get_def client_get_value_def client_post_def
      aiofiles_open_wb_def aiofiles_write_def os_path_join_def image_filename_def graph_url_def
      messages_url_def bearer_def tag_of_def py_item_def sum_bind_def image_message_def
      demo_env_def io_defs)

lemma image_path_text:
  "os_path_join ''images'' (image_filename t e) = ''images/image_'' @ t @ ''.'' @ e"
  by (simp add: os_path_join_def image_filename_def)

text \<open>
  Claim C4. When the body of the \<^verbatim>\<open>try\<close> ends without an exception for an image
  message, the handler has done this and nothing else, in this order: logged the decoded
  body; asked the Graph API for the node of the image id; downloaded from the \<^verbatim>\<open>url\<close> of
  the answer; opened \<^verbatim>\<open>images/image_<timestamp>.<extension>\<close> and written the downloaded
  bytes to it; read the EXIF data back from those bytes (logging an extraction error if
  there was one); posted to the messages endpoint of the phone number id the summary
  reply, addressed to the sender of the message, in reply to its id, with the caption and
  the metadata in its text; and posted the read receipt for the id of the message. Then
  it returns \<^verbatim>\<open>{"status": "ok"}\<close>.
\<close>

theorem webhook_image_step_order:
  assumes "read_message body = Inr (JObj flds)"
    and "read_phone_number_id body = Inr phone"
    and "map_of flds ''type'' = Some (JStr ''image'')"
    and "read_image_fields (JObj flds) = Inr (image_id, caption, ext)"
    and "w1 = w\<lparr>trace := trace w @ [Log INFO (IncomingWebhook body)]\<rparr>"
    and "fn = ''image_'' @ clock en w1 @ ''.'' @ ext"
    and "path = ''images/'' @ fn"
    and "auth = ''Bearer '' @ (case GRAPH_API_TOKEN en of None \<Rightarrow> ''None'' | Some t \<Rightarrow> t)"
    and "media = ''https://graph.facebook.com/v18.0/'' @ py_str en image_id"
    and "messages = ''https://graph.facebook.com/v18.0/'' @ py_str en phone @ ''/messages''"
    and "process_image en (JObj flds) phone image_id caption fn w1 = (Inr (), w2)"
  shows "\<exists>r1 kvs media_url r2 md lg sender mid.
           http_get en w1 media auth = Inr r1 \<and>
           json_body r1 = Inr (JObj kvs) \<and> map_of kvs ''url'' = Some (JStr media_url) \<and>
           http_get en (w1\<lparr>trace := trace w1 @ [HttpGet media auth]\<rparr>) media_url auth = Inr r2 \<and>
           (case pil_getexif en (content r2) of
              Inl e \<Rightarrow> md = [(StrKey ''error'', exn_str en e)] \<and>
                       lg = [Log ERROR (ErrorExtractingMetadata (exn_str en e))]
            | Inr None \<Rightarrow> md = [(StrKey ''error'', ''No EXIF data found'')] \<and> lg = []
            | Inr (Some items) \<Rightarrow>
                md = (if items = [] then [(StrKey ''error'', ''No EXIF data found'')]
                      else exif_items en items []) \<and> lg = []) \<and>
           map_of flds ''from'' = Some sender \<and> map_of flds ''id'' = Some mid \<and>
           webhook en (Inr body) w = (Inr (JObj [(''status'', JStr ''ok'')]), w2) \<and>
           files w2 = (files w)(path \<mapsto> content r2) \<and>
           trace w2 = trace w @
             [Log INFO (IncomingWebhook body),
              HttpGet media auth,
              HttpGet media_url auth,
              FileOpenWrite path,
              FileWrite path (content r2),
              Log INFO (ImageSaved fn),
              FileRead path] @ lg @
             [Log INFO (ImageMetadata (json_dumps en md)),
              HttpPost messages auth
                (JObj [(''messaging_product'', JStr ''whatsapp''),
                       (''to'', sender),
                       (''text'', JObj [(''body'', JStr
                          (''Image received and saved successfully!'' @ [CHR 0x0A] @
                           ''Caption: '' @ py_str en caption @ [CHR 0x0A, CHR 0x0A] @
                           ''Metadata:'' @ [CHR 0x0A] @ json_dumps en md))]),
                       (''context'', JObj [(''message_id'', mid)])]),
              HttpPost messages auth
                (JObj [(''messaging_product'', JStr ''whatsapp''),
                       (''status'', JStr ''read''),
                       (''message_id'', mid)]),
              Log INFO (ImageProcessed fn)]"
proof -
  have ty: "py_get (JObj flds) ''type'' JNull = Inr (JStr ''image'')"
    by (simp add: py_get_def assms(3))
  have fn: "fn = image_filename (clock en w1) ext"
    by (simp add: assms(6) image_filename_def)
  have run: "webhook en (Inr body) w = (Inr (JObj [(''status'', JStr ''ok'')]), w2)"
    using webhook_image_run [OF assms(1,2) ty assms(4,5) fn] assms(11)
    by (simp add: status_ok_def)
  have names: "os_path_join ''images'' fn = path" "graph_url en image_id = media"
    "messages_url en phone = messages" "bearer en = auth"
    by (simp_all add: assms(6-10) os_path_join_def graph_url_def messages_url_def bearer_def)
  from process_image_detail [OF assms(11)] obtain r1 kvs media_url r2 md lg sender mid where
    g1: "http_get en w1 media auth = Inr r1" and
    j: "json_body r1 = Inr (JObj kvs)" "map_of kvs ''url'' = Some (JStr media_url)" and
    g2: "http_get en (w1\<lparr>trace := trace w1 @ [HttpGet media auth]\<rparr>) media_url auth = Inr r2" and
    md: "case pil_getexif en (content r2) of
              Inl e \<Rightarrow> md = [(StrKey ''error'', exn_str en e)] \<and>
                       lg = [Log ERROR (ErrorExtractingMetadata (exn_str en e))]
            | Inr None \<Rightarrow> md = [(StrKey ''error'', ''No EXIF data found'')] \<and> lg = []
            | Inr (Some items) \<Rightarrow>
                md = (if items = [] then [(StrKey ''error'', ''No EXIF data found'')]
                      else exif_items en items []) \<and> lg = []" and
    m: "py_item (JObj flds) ''from'' = Inr sender" "py_item (JObj flds) ''id'' = Inr mid" and
    w2: "w2 = w1\<lparr>files := (files w1)(path \<mapsto> content r2),
                  trace := trace w1 @
                    [HttpGet media auth,
                     HttpGet media_url auth,
                     FileOpenWrite path,
                     FileWrite path (content r2),
                     Log INFO (ImageSaved fn),
                     FileRead path] @ lg @
                    [Log INFO (ImageMetadata (json_dumps en md)),
                     HttpPost messages auth
                       (summary_reply sender mid (response_message en caption md)),
                     HttpPost messages auth (read_receipt mid),
                     Log INFO (ImageProcessed fn)]\<rparr>"
    unfolding names by blast
  from m have m': "map_of flds ''from'' = Some sender" "map_of flds ''id'' = Some mid"
    by (auto simp: py_item_def split: option.splits)
  have f: "files w2 = (files w)(path \<mapsto> content r2)"
    by (simp add: w2 assms(5))
  have t: "trace w2 = trace w @
             [Log INFO (IncomingWebhook body),
              HttpGet media auth,
              HttpGet media_url auth,
              FileOpenWrite path,
              FileWrite path (content r2),
              Log INFO (ImageSaved fn),
              FileRead path] @ lg @
             [Log INFO (ImageMetadata (json_dumps en md)),
              HttpPost messages auth
                (JObj [(''messaging_product'', JStr ''whatsapp''),
                       (''to'', sender),
                       (''text'', JObj [(''body'', JStr
                          (''Image received and saved successfully!'' @ [CHR 0x0A] @
                           ''Caption: '' @ py_str en caption @ [CHR 0x0A, CHR 0x0A] @
                           ''Metadata:'' @ [CHR 0x0A] @ json_dumps en md))]),
                       (''context'', JObj [(''message_id'', mid)])]),
              HttpPost messages auth
                (JObj [(''messaging_product'', JStr ''whatsapp''),
                       (''status'', JStr ''read''),
                       (''message_id'', mid)]),
              Log INFO (ImageProcessed fn)]"
    by (simp add: w2 assms(5) summary_reply_def read_receipt_def response_message_def)
  from g1 j g2 md m' run f t show ?thesis by blast
qed

text \<open>
  The whole trace of one image message in the test environment.
\<close>

theorem webhook_image_step_order_witness:
  "fst (webhook demo_env (Inr (image_payload ''wamid.1'')) empty_world) =
     Inr (JObj [(''status'', JStr ''ok'')]) \<and>
   trace (snd (webhook demo_env (Inr (image_payload ''wamid.1'')) empty_world)) =
     [Log INFO (IncomingWebhook (image_payload ''wamid.1'')),
      HttpGet ''https://graph.facebook.com/v18.0/m1'' ''Bearer EAAGm0PX4ZCps'',
      HttpGet ''https://cdn/m1'' ''Bearer EAAGm0PX4ZCps'',
      FileOpenWrite ''images/image_1700000000.5.jpeg'',
      FileWrite ''images/image_1700000000.5.jpeg'' ''JFIF'',
      Log INFO (ImageSaved ''image_1700000000.5.jpeg''),
      FileRead ''images/image_1700000000.5.jpeg'',
      Log INFO (ImageMetadata ''Canon''),
      HttpPost ''https://graph.facebook.com/v18.0/1055/messages'' ''Bearer EAAGm0PX4ZCps''
        (JObj [(''messaging_product'', JStr ''whatsapp''),
               (''to'', JStr ''4915''),
               (''text'', JObj [(''body'', JStr
                  (''Image received and saved successfully!'' @ [CHR 0x0A] @
                   ''Caption: No caption'' @ [CHR 0x0A, CHR 0x0A] @
                   ''Metadata:'' @ [CHR 0x0A] @ ''Canon''))]),
               (''context'', JObj [(''message_id'', JStr ''wamid.1'')])]),
      HttpPost ''https://graph.facebook.com/v18.0/1055/messages'' ''Bearer EAAGm0PX4ZCps''
        (JObj [(''messaging_product'', JStr ''whatsapp''),
               (''status'', JStr ''read''),
               (''message_id'', JStr ''wamid.1'')]),
      Log INFO (ImageProcessed ''image_1700000000.5.jpeg'')]"
proof -
  have ty: "map_of [(''from'', JStr ''4915''), (''id'', JStr ''wamid.1''), (''type'', JStr ''image''),
      (''image'', JObj [(''id'', JStr ''m1''), (''mime_type'', JStr ''image/jpeg'')])] ''type'' =
      Some (JStr ''image'')"
    by simp
  from webhook_image_step_order [where en = demo_env and w = empty_world,
      OF demo_read(1) [of "''wamid.1''", unfolded image_message_def]
        demo_read(2) [of "''wamid.1''"] ty
        demo_read(4) [of "''wamid.1''", unfolded image_message_def]
        refl refl refl refl refl refl
        demo_process [of "''wamid.1''", unfolded image_filename_def image_message_def]]
  show ?thesis
    by (auto simp: demo_env_def empty_world_def tag_of_def)
qed

text \<open>
  Claim C5, as the code has it. An image message processed without error makes exactly four
  outbound HTTP calls: two GETs (the lookup of the media URL, the download) and then two
  POSTs to the messages endpoint (the summary reply, the read receipt).
\<close>

theorem webhook_image_http_calls:
  assumes "read_message body = Inr message"
    and "read_phone_number_id body = Inr phone"
    and "py_get message ''type'' JNull = Inr (JStr ''image'')"
    and "read_image_fields message = Inr (image_id, caption, ext)"
    and "w1 = w\<lparr>trace := trace w @ [Log INFO (IncomingWebhook body)]\<rparr>"
    and "fn = image_filename (clock en w1) ext"
    and "process_image en message phone image_id caption fn w1 = (Inr (), w2)"
  shows "\<exists>media_url summary receipt.
           webhook en (Inr body) w = (Inr status_ok, w2) \<and>
           filter is_http_call (trace w2) = filter is_http_call (trace w) @
             [HttpGet (graph_url en image_id) (bearer en),
              HttpGet media_url (bearer en),
              HttpPost (messages_url en phone) (bearer en) summary,
              HttpPost (messages_url en phone) (bearer en) receipt] \<and>
           length (filter is_http_call (trace w2)) = length (filter is_http_call (trace w)) + 4 \<and>
           posts_of (trace w2) = posts_of (trace w) @ [summary, receipt]"
proof -
  have run: "webhook en (Inr body) w = (Inr status_ok, w2)"
    using webhook_image_run [OF assms(1-6)] assms(7) by simp
  have posts_append: "posts_of (xs @ ys) = posts_of xs @ posts_of ys" for xs ys
    by (induction xs rule: posts_of.induct) simp_all
  from process_image_success [OF assms(7)] obtain media_url bytes md lg sender mid where
    lg: "lg = [] \<or> (\<exists>s. lg = [Log ERROR (ErrorExtractingMetadata s)] \<and> md = [(StrKey ''error'', s)])" and
    w2: "w2 = w1\<lparr>files := (files w1)(os_path_join ''images'' fn \<mapsto> bytes),
                  trace := trace w1 @
                    [HttpGet (graph_url en image_id) (bearer en),
                     HttpGet media_url (bearer en),
                     FileOpenWrite (os_path_join ''images'' fn),
                     FileWrite (os_path_join ''images'' fn) bytes,
                     Log INFO (ImageSaved fn),
                     FileRead (os_path_join ''images'' fn)] @ lg @
                    [Log INFO (ImageMetadata (json_dumps en md)),
                     HttpPost (messages_url en phone) (bearer en)
                       (summary_reply sender mid (response_message en caption md)),
                     HttpPost (messages_url en phone) (bearer en) (read_receipt mid),
                     Log INFO (ImageProcessed fn)]\<rparr>"
    by blast
  from lg have "filter is_http_call lg = []" and "posts_of lg = []" by auto
  then have "filter is_http_call (trace w2) = filter is_http_call (trace w) @
             [HttpGet (graph_url en image_id) (bearer en),
              HttpGet media_url (bearer en),
              HttpPost (messages_url en phone) (bearer en)
                (summary_reply sender mid (response_message en caption md)),
              HttpPost (messages_url en phone) (bearer en) (read_receipt mid)]"
    and "posts_of (trace w2) = posts_of (trace w) @
          [summary_reply sender mid (response_message en caption md), read_receipt mid]"
    by (simp_all add: w2 assms(5) posts_append)
  with run show ?thesis by auto
qed

text \<open>
  The four calls of the test message.
\<close>

theorem webhook_image_http_calls_witness:
  "filter is_http_call (trace (snd (webhook demo_env (Inr (image_payload ''wamid.1'')) empty_world))) =
     [HttpGet ''https://graph.facebook.com/v18.0/m1'' ''Bearer EAAGm0PX4ZCps'',
      HttpGet ''https://cdn/m1'' ''Bearer EAAGm0PX4ZCps'',
      HttpPost ''https://graph.facebook.com/v18.0/1055/messages'' ''Bearer EAAGm0PX4ZCps''
        (summary_reply (JStr ''4915'') (JStr ''wamid.1'')
           (response_message demo_env (JStr ''No caption'') [(StrKey ''Make'', ''Canon'')])),
      HttpPost ''https://graph.facebook.com/v18.0/1055/messages'' ''Bearer EAAGm0PX4ZCps''
        (read_receipt (JStr ''wamid.1''))]"
  using webhook_image_http_calls [OF demo_read refl refl demo_process, of "''wamid.1''" empty_world]
  by (auto simp: empty_world_def)

text \<open>
  Claim C5 as written (exactly two outbound HTTP calls) fails on the test message: it is
  processed without error, and the handler makes four calls.
\<close>

theorem two_http_calls_counterexample:
  "fst (webhook demo_env (Inr (image_payload ''wamid.1'')) empty_world) = Inr status_ok \<and>
   guard_errors (trace (snd (webhook demo_env (Inr (image_payload ''wamid.1'')) empty_world))) = [] \<and>
   length (filter is_http_call
     (trace (snd (webhook demo_env (Inr (image_payload ''wamid.1'')) empty_world)))) = 4 \<and>
   length (filter is_http_call
     (trace (snd (webhook demo_env (Inr (image_payload ''wamid.1'')) empty_world)))) \<noteq> 2"
  by (simp add: webhook_image_run [OF demo_read refl refl] demo_process empty_world_def)

lemma demo_download:
  "download_and_save_image demo_env (JStr ''m1'') (image_filename (clock demo_env w1) ''jpeg'') w1 =
     (Inr ''images/image_1700000000.5.jpeg'',
      w1\<lparr>files := (files w1)(''images/image_1700000000.5.jpeg'' \<mapsto> ''JFIF''),
         trace := trace w1 @
           [HttpGet ''https://graph.facebook.com/v18.0/m1'' ''Bearer EAAGm0PX4ZCps'',
            HttpGet ''https://cdn/m1'' ''Bearer EAAGm0PX4ZCps'',
            FileOpenWrite ''images/image_1700000000.5.jpeg'',
            FileWrite ''images/image_1700000000.5.jpeg'' ''JFIF'',
            Log INFO (ImageSaved ''image_1700000000.5.jpeg'')]\<rparr>)"
  "download_and_save_image send_failure_env (JStr ''m1'')
     (image_filename (clock send_failure_env w1) ''jpeg'') w1 =
     (Inr ''images/image_1700000000.5.jpeg'',
      w1\<lparr>files := (files w1)(''images/image_1700000000.5.jpeg'' \<mapsto> ''JFIF''),
         trace := trace w1 @
           [HttpGet ''https://graph.facebook.com/v18.0/m1'' ''Bearer EAAGm0PX4ZCps'',
            HttpGet ''https://cdn/m1'' ''Bearer EAAGm0PX4ZCps'',
            FileOpenWrite ''images/image_1700000000.5.jpeg'',
            FileWrite ''images/image_1700000000.5.jpeg'' ''JFIF'',
            Log INFO (ImageSaved ''image_1700000000.5.jpeg'')]\<rparr>)"
  "download_and_save_image later_env (JStr ''m1'') (image_filename (clock later_env w1) ''jpeg'') w1 =
     (Inr ''images/image_1700000000.75.jpeg'',
      w1\<lparr>files := (files w1)(''images/image_1700000000.75.jpeg'' \<mapsto> ''JFIF''),
         trace := trace w1 @
           [HttpGet ''https://graph.facebook.com/v18.0/m1'' ''Bearer EAAGm0PX4ZCps'',
            HttpGet ''https://cdn/m1'' ''Bearer EAAGm0PX4ZCps'',
            FileOpenWrite ''images/image_1700000000.75.jpeg'',
            FileWrite ''images/image_1700000000.75.jpeg'' ''JFIF'',
            Log INFO (ImageSaved ''image_1700000000.75.jpeg'')]\<rparr>)"
  by (simp_all add: download_and_save_image_def client_get_def client_get_value_def
      aiofiles_open_wb_def aiofiles_write_def os_path_join_def image_filename_def graph_url_def
      bearer_def py_item_def sum_bind_def send_failure_env_def later_env_def demo_env_def io_defs)




section \<open>File names\<close>

text \<open>
  A text with a separator splits in one way only, when the separator is in neither of the
  parts before it. The text of a timestamp has one point, so the name of a file splits in
  one way into timestamp and extension.
\<close>

lemma split_at_first:
  "c \<notin> set a \<Longrightarrow> c \<notin> set b \<Longrightarrow> a @ c # x = b @ c # y \<Longrightarrow> a = b \<and> x = y"
proof (induction a arbitrary: b)
  case Nil
  then show ?case by (cases b) auto
next
  case (Cons h a)
  then show ?case by (cases b) auto
qed

lemma written_paths_append: "written_paths (xs @ ys) = written_paths xs @ written_paths ys"
  by (induction xs rule: written_paths.induct) simp_all

lemma written_paths_filter: "written_paths (filter is_file_access evs) = written_paths evs"
  by (induction evs rule: written_paths.induct) simp_all

lemma timestamp_text_split:
  assumes "timestamp_text t"
  shows "\<exists>a b. t = a @ CHR ''.'' # b \<and> CHR ''.'' \<notin> set a \<and> CHR ''.'' \<notin> set b"
proof -
  from assms obtain frac where d: "dropWhile is_digit t = CHR ''.'' # frac"
    and frac: "list_all is_digit frac"
    by (auto simp: timestamp_text_def split: list.splits)
  have dot: "\<not> is_digit (CHR ''.'')" by (simp add: is_digit_def)
  have "t = takeWhile is_digit t @ CHR ''.'' # frac"
    using takeWhile_dropWhile_id [of is_digit t] d by simp
  moreover have "CHR ''.'' \<notin> set (takeWhile is_digit t)"
    using dot by (auto dest: set_takeWhileD)
  moreover have "CHR ''.'' \<notin> set frac"
    using dot frac by (auto simp: list_all_iff)
  ultimately show ?thesis by blast
qed

lemma image_path_injective:
  assumes "timestamp_text t1" and "timestamp_text t2"
  shows "''images/image_'' @ t1 @ ''.'' @ e1 = ''images/image_'' @ t2 @ ''.'' @ e2
           \<longleftrightarrow> t1 = t2 \<and> e1 = e2"
proof
  assume eq: "''images/image_'' @ t1 @ ''.'' @ e1 = ''images/image_'' @ t2 @ ''.'' @ e2"
  from timestamp_text_split [OF assms(1)] obtain a1 b1 where
    t1: "t1 = a1 @ CHR ''.'' # b1" and a1: "CHR ''.'' \<notin> set a1" and b1: "CHR ''.'' \<notin> set b1"
    by blast
  from timestamp_text_split [OF assms(2)] obtain a2 b2 where
    t2: "t2 = a2 @ CHR ''.'' # b2" and a2: "CHR ''.'' \<notin> set a2" and b2: "CHR ''.'' \<notin> set b2"
    by blast
  from eq have "a1 @ CHR ''.'' # (b1 @ CHR ''.'' # e1) = a2 @ CHR ''.'' # (b2 @ CHR ''.'' # e2)"
    by (simp add: t1 t2)
  from split_at_first [OF a1 a2 this] have "a1 = a2" and
    "b1 @ CHR ''.'' # e1 = b2 @ CHR ''.'' # e2"
    by simp_all
  with split_at_first [OF b1 b2] show "t1 = t2 \<and> e1 = e2"
    by (simp add: t1 t2)
next
  assume "t1 = t2 \<and> e1 = e2"
  then show "''images/image_'' @ t1 @ ''.'' @ e1 = ''images/image_'' @ t2 @ ''.'' @ e2"
    by simp
qed

text \<open>
  Claim C7, as the code has it. Two requests that each save an image file write to
  \<^verbatim>\<open>images/image_<timestamp>.<extension>\<close>, and the two names are distinct if and only if
  the requests read different timestamps from the clock or have different extensions:
  the name is unique for each pair of timestamp and extension, not for each request.
\<close>

theorem image_file_names:
  assumes "read_message body1 = Inr m1" and "read_message body2 = Inr m2"
    and "read_phone_number_id body1 = Inr phone1" and "read_phone_number_id body2 = Inr phone2"
    and "py_get m1 ''type'' JNull = Inr (JStr ''image'')"
    and "py_get m2 ''type'' JNull = Inr (JStr ''image'')"
    and "read_image_fields m1 = Inr (id1, caption1, ext1)"
    and "read_image_fields m2 = Inr (id2, caption2, ext2)"
    and "t1 = clock ena (wa\<lparr>trace := trace wa @ [Log INFO (IncomingWebhook body1)]\<rparr>)"
    and "t2 = clock enb (wb\<lparr>trace := trace wb @ [Log INFO (IncomingWebhook body2)]\<rparr>)"
    and "timestamp_text t1" and "timestamp_text t2"
    and "download_and_save_image ena id1 (image_filename t1 ext1)
           (wa\<lparr>trace := trace wa @ [Log INFO (IncomingWebhook body1)]\<rparr>) = (Inr p1, wa')"
    and "download_and_save_image enb id2 (image_filename t2 ext2)
           (wb\<lparr>trace := trace wb @ [Log INFO (IncomingWebhook body2)]\<rparr>) = (Inr p2, wb')"
  shows "written_paths (trace (snd (webhook ena (Inr body1) wa))) = written_paths (trace wa) @ [p1] \<and>
         written_paths (trace (snd (webhook enb (Inr body2) wb))) = written_paths (trace wb) @ [p2] \<and>
         p1 = ''images/image_'' @ t1 @ ''.'' @ ext1 \<and>
         p2 = ''images/image_'' @ t2 @ ''.'' @ ext2 \<and>
         (p1 = p2 \<longleftrightarrow> t1 = t2 \<and> ext1 = ext2)"
proof -
  from webhook_saved_run [OF assms(1,3,5,7) refl _ assms(13)] assms(9)
  obtain b evs where
    p1: "p1 = os_path_join ''images'' (image_filename t1 ext1)" and
    t: "trace (snd (webhook ena (Inr body1) wa)) = trace wa @ evs" and
    a: "filter is_file_access evs = [FileOpenWrite p1, FileWrite p1 b, FileRead p1]"
    by blast
  from webhook_saved_run [OF assms(2,4,6,8) refl _ assms(14)] assms(10)
  obtain b' evs' where
    p2: "p2 = os_path_join ''images'' (image_filename t2 ext2)" and
    t': "trace (snd (webhook enb (Inr body2) wb)) = trace wb @ evs'" and
    a': "filter is_file_access evs' = [FileOpenWrite p2, FileWrite p2 b', FileRead p2]"
    by blast
  have "written_paths evs = [p1]"
    using written_paths_filter [of evs] by (simp add: a)
  then have 1: "written_paths (trace (snd (webhook ena (Inr body1) wa))) =
      written_paths (trace wa) @ [p1]"
    by (simp add: t written_paths_append)
  have "written_paths evs' = [p2]"
    using written_paths_filter [of evs'] by (simp add: a')
  then have 2: "written_paths (trace (snd (webhook enb (Inr body2) wb))) =
      written_paths (trace wb) @ [p2]"
    by (simp add: t' written_paths_append)
  have 3: "p1 = ''images/image_'' @ t1 @ ''.'' @ ext1" "p2 = ''images/image_'' @ t2 @ ''.'' @ ext2"
    by (simp_all add: p1 p2 image_path_text)
  have "p1 = p2 \<longleftrightarrow> t1 = t2 \<and> ext1 = ext2"
    unfolding 3 by (rule image_path_injective [OF assms(11,12)])
  with 1 2 3 show ?thesis by blast
qed

text \<open>
  Two requests at different times write two files.
\<close>

theorem image_file_names_witness:
  "written_paths (trace (snd (webhook demo_env (Inr (image_payload ''wamid.1'')) empty_world))) =
     [''images/image_1700000000.5.jpeg''] \<and>
   written_paths (trace (snd (webhook later_env (Inr (image_payload ''wamid.2'')) empty_world))) =
     [''images/image_1700000000.75.jpeg'']"
proof -
  have c: "''1700000000.5'' = clock demo_env w1" "''1700000000.75'' = clock later_env w1" for w1
    by (simp_all add: demo_env_def later_env_def)
  have ts: "timestamp_text ''1700000000.5''" "timestamp_text ''1700000000.75''"
    by (simp_all add: timestamp_text_def is_digit_def)
  from image_file_names [where ena = demo_env and enb = later_env and wa = empty_world
      and wb = empty_world,
      OF demo_read(1) [of "''wamid.1''"] demo_read(1) [of "''wamid.2''"]
        demo_read(2) [of "''wamid.1''"] demo_read(2) [of "''wamid.2''"]
        demo_read(3) [of "''wamid.1''"] demo_read(3) [of "''wamid.2''"]
        demo_read(4) [of "''wamid.1''"] demo_read(4) [of "''wamid.2''"]
        c(1) c(2) ts
        demo_download(1) [unfolded c(1) [symmetric]]
        demo_download(3) [unfolded c(2) [symmetric]]]
  show ?thesis by (simp add: empty_world_def)
qed

text \<open>
  Claim C7 as written (distinct requests write distinct names) fails: two different image
  messages handled while the clock reads the same timestamp write the same path, and the
  second overwrites the file of the first.
\<close>

theorem unique_filename_counterexample:
  "image_payload ''wamid.1'' \<noteq> image_payload ''wamid.2'' \<and>
   written_paths (trace (snd (webhook demo_env (Inr (image_payload ''wamid.2''))
     (snd (webhook demo_env (Inr (image_payload ''wamid.1'')) empty_world))))) =
     [''images/image_1700000000.5.jpeg'', ''images/image_1700000000.5.jpeg'']"
proof -
  have "image_payload ''wamid.1'' \<noteq> image_payload ''wamid.2''"
    by (simp add: image_payload_def image_message_def)
  moreover have "written_paths (trace (snd (webhook demo_env (Inr (image_payload ''wamid.2''))
     (snd (webhook demo_env (Inr (image_payload ''wamid.1'')) empty_world))))) =
     [''images/image_1700000000.5.jpeg'', ''images/image_1700000000.5.jpeg'']"
    by (simp add: webhook_image_run [OF demo_read refl refl] demo_process empty_world_def)
  ultimately show ?thesis by simp
qed

section \<open>Failures while an image is processed\<close>




section \<open>Which payloads are answered\<close>

lemma handle_image_result:
  "fst (handle_image en message phone w) =
     (case read_image_fields message of Inl e \<Rightarrow> Inl e | Inr flds \<Rightarrow> Inr ())"
proof (cases "read_image_fields message")
  case (Inl e)
  then show ?thesis by (simp add: handle_image_def io_bind_def io_lift_def)
next
  case (Inr flds)
  obtain image_id caption ext where f: "flds = (image_id, caption, ext)" by (cases flds)
  obtain r w' where p: "process_image en message phone image_id caption
      (image_filename (clock en w) ext) w = (r, w')"
    by (cases "process_image en message phone image_id caption (image_filename (clock en w) ext) w")
  show ?thesis
    by (cases r) (simp_all add: Inr f p handle_image_def now_timestamp_def io_defs)
qed

text \<open>
  The handler returns \<^verbatim>\<open>{"status": "ok"}\<close> exactly when lines 80 to 90 read the body
  without an exception; it has no other value to return.
\<close>

lemma webhook_returns_ok_iff:
  "(fst (webhook en (Inr body) w) = Inr status_ok \<longleftrightarrow>
      (\<exists>message phone t.
         read_message body = Inr message \<and> read_phone_number_id body = Inr phone \<and>
         py_get message ''type'' JNull = Inr t \<and>
         (t = JStr ''image'' \<longrightarrow> (\<exists>flds. read_image_fields message = Inr flds)))) \<and>
   (fst (webhook en (Inr body) w) = Inr status_ok \<or> (\<exists>e. fst (webhook en (Inr body) w) = Inl e))"
proof -
  let ?w1 = "w\<lparr>trace := trace w @ [Log INFO (IncomingWebhook body)]\<rparr>"
  have h: "fst (case handle_image en message phone ?w1 of
                  (Inl e, w') \<Rightarrow> (Inl e, w')
                | (Inr u, w') \<Rightarrow> io_return status_ok w') =
           (case read_image_fields message of Inl e \<Rightarrow> Inl e | Inr flds \<Rightarrow> Inr status_ok)"
    for message phone
    using handle_image_result [of en message phone ?w1]
    by (cases "handle_image en message phone ?w1") (auto simp: io_return_def split: sum.splits)
  have "fst (webhook en (Inr body) w) =
      (case read_message body of Inl e \<Rightarrow> Inl e | Inr message \<Rightarrow>
        (case read_phone_number_id body of Inl e \<Rightarrow> Inl e | Inr phone \<Rightarrow>
          (case py_get message ''type'' JNull of Inl e \<Rightarrow> Inl e | Inr t \<Rightarrow>
            if t = JStr ''image''
            then (case read_image_fields message of Inl e \<Rightarrow> Inl e | Inr flds \<Rightarrow> Inr status_ok)
            else Inr status_ok)))"
    unfolding webhook_def
    by (simp add: io_defs h split: sum.splits)
  then show ?thesis
    by (auto split: sum.splits if_splits)
qed

text \<open>
  A body that is not of the platform's shape can make these lines raise.
\<close>

lemma webhook_raises_outside:
  "fst (webhook demo_env
     (Inr (JObj [(''entry'', JArr [JObj [(''changes'', JArr [JObj [(''value'', JObj
        [(''messages'', JArr [JObj [(''type'', JStr ''image'')]])])]])]])]))
     empty_world) = Inl (KeyError ''image'') \<and>
   fst (webhook demo_env (Inr (JObj [(''entry'', JArr [])])) empty_world) = Inl IndexError"
  by (simp add: run_defs io_defs)

lemma split_on_nonempty: "split_on c s \<noteq> []"
  by (induction s) (auto split: list.splits)

lemma split_on_second: "c \<in> set s \<Longrightarrow> \<exists>a b r. split_on c s = a # b # r"
proof (induction s)
  case Nil
  then show ?case by simp
next
  case (Cons x xs)
  show ?case
  proof (cases "x = c")
    case True
    obtain y ys where "split_on c xs = y # ys"
      using split_on_nonempty [of c xs] by (cases "split_on c xs") auto
    with True show ?thesis by simp
  next
    case False
    with Cons.prems have "c \<in> set xs" by simp
    from Cons.IH [OF this] obtain a b r where "split_on c xs = a # b # r" by blast
    with False show ?thesis by simp
  qed
qed

lemma first_of_optional_list:
  assumes "optional kvs k (nonempty_list P)" and "P (JObj [])"
  shows "\<exists>l x. py_get (JObj kvs) k (JArr [JObj []]) = Inr l \<and> py_first l = Inr x \<and> P x"
proof (cases "map_of kvs k")
  case None
  with assms(2) show ?thesis by (simp add: py_get_def py_first_def)
next
  case (Some v)
  with assms(1) obtain x xs where "v = JArr (x # xs)" "P x"
    by (auto simp: optional_def nonempty_list_def split: json.splits list.splits)
  with Some show ?thesis by (simp add: py_get_def py_first_def)
qed

lemma platform_empty:
  "platform_entry (JObj [])" "platform_change (JObj [])" "platform_value (JObj [])"
  "platform_message (JObj [])"
  by (simp_all add: platform_entry_def platform_change_def platform_value_def
      platform_message_def optional_def)

lemma read_value_platform:
  assumes "platform_payload body"
  shows "\<exists>v. read_value body = Inr v \<and> platform_value v"
proof -
  from assms obtain kvs where body: "body = JObj kvs"
    and e: "optional kvs ''entry'' (nonempty_list platform_entry)"
    by (auto simp: platform_payload_def split: json.splits)
  from first_of_optional_list [OF e platform_empty(1)] obtain l entry0 where
    1: "py_get body ''entry'' (JArr [JObj []]) = Inr l" "py_first l = Inr entry0"
    and "platform_entry entry0"
    unfolding body by blast
  then obtain kvs1 where entry0: "entry0 = JObj kvs1"
    and c: "optional kvs1 ''changes'' (nonempty_list platform_change)"
    by (auto simp: platform_entry_def split: json.splits)
  from first_of_optional_list [OF c platform_empty(2)] obtain l' change0 where
    2: "py_get entry0 ''changes'' (JArr [JObj []]) = Inr l'" "py_first l' = Inr change0"
    and "platform_change change0"
    unfolding entry0 by blast
  then obtain kvs2 where change0: "change0 = JObj kvs2"
    and v: "optional kvs2 ''value'' platform_value"
    by (auto simp: platform_change_def split: json.splits)
  have "\<exists>v. py_get change0 ''value'' (JObj []) = Inr v \<and> platform_value v"
    using v platform_empty(3)
    by (cases "map_of kvs2 ''value''") (simp_all add: change0 py_get_def optional_def)
  with 1 2 show ?thesis
    by (auto simp: read_value_def sum_bind_def)
qed

lemma read_image_fields_platform:
  assumes "platform_message (JObj kvs)" and "map_of kvs ''type'' = Some (JStr ''image'')"
  shows "\<exists>flds. read_image_fields (JObj kvs) = Inr flds"
proof -
  from assms obtain v where v: "map_of kvs ''image'' = Some v" and pv: "platform_image v"
    by (cases "map_of kvs ''image''") (simp_all add: platform_message_def)
  from pv obtain ikvs where ikvs: "v = JObj ikvs" and
    id: "map_of ikvs ''id'' \<noteq> None" and
    mt: "case map_of ikvs ''mime_type'' of Some (JStr s) \<Rightarrow> CHR ''/'' \<in> set s | _ \<Rightarrow> False"
    by (cases v) (simp_all add: platform_image_def)
  from id obtain image_id where image_id: "map_of ikvs ''id'' = Some image_id"
    by blast
  from mt obtain m where m: "map_of ikvs ''mime_type'' = Some m"
    by (cases "map_of ikvs ''mime_type''") simp_all
  from mt m obtain s where s: "m = JStr s" "CHR ''/'' \<in> set s"
    by (cases m) simp_all
  note i = v [unfolded ikvs] image_id m [unfolded s(1)] s(2)
  from split_on_second [OF i(4)] obtain a b r where "split_on (CHR ''/'') s = a # b # r"
    by blast
  then have "file_extension_of (JStr s) = Inr b"
    by (simp add: file_extension_of_def)
  with i show ?thesis
    by (simp add: read_image_fields_def sum_bind_def py_item_def py_get_def)
qed

text \<open>
  Claim C3. For every \<^verbatim>\<open>POST /webhook\<close> request whose body is a webhook payload of the
  messaging platform, the handler returns \<^verbatim>\<open>{"status": "ok"}\<close>, whatever the
  input/output calls do.
\<close>

theorem webhook_platform_payload_ok:
  assumes "platform_payload body"
  shows "fst (webhook en (Inr body) w) = Inr (JObj [(''status'', JStr ''ok'')])"
proof -
  from read_value_platform [OF assms] obtain v where
    rv: "read_value body = Inr v" and pv: "platform_value v"
    by blast
  from pv obtain kvs where v: "v = JObj kvs" and
    md: "optional kvs ''metadata'' is_object" and
    ms: "optional kvs ''messages'' (nonempty_list platform_message)"
    by (cases v) (simp_all add: platform_value_def)
  from first_of_optional_list [OF ms platform_empty(4)] obtain l message where
    m: "py_get v ''messages'' (JArr [JObj []]) = Inr l" "py_first l = Inr message"
    and pm: "platform_message message"
    unfolding v by blast
  then have rm: "read_message body = Inr message"
    by (simp add: read_message_def sum_bind_def rv)
  have "\<exists>phone. read_phone_number_id body = Inr phone"
  proof (cases "map_of kvs ''metadata''")
    case None
    then show ?thesis
      by (simp add: read_phone_number_id_def sum_bind_def rv v py_get_def)
  next
    case (Some m)
    with md obtain mkvs where "m = JObj mkvs"
      by (cases m) (simp_all add: optional_def is_object_def)
    with Some show ?thesis
      by (simp add: read_phone_number_id_def sum_bind_def rv v py_get_def)
  qed
  then obtain phone where rp: "read_phone_number_id body = Inr phone" by blast
  from pm obtain mkvs where message: "message = JObj mkvs"
    by (auto simp: platform_message_def split: json.splits)
  obtain t where t: "py_get message ''type'' JNull = Inr t"
    by (simp add: message py_get_def)
  have "t = JStr ''image'' \<longrightarrow> (\<exists>flds. read_image_fields message = Inr flds)"
  proof
    assume "t = JStr ''image''"
    with t have "map_of mkvs ''type'' = Some (JStr ''image'')"
      by (auto simp: message py_get_def split: option.splits)
    from read_image_fields_platform [OF pm [unfolded message] this]
    show "\<exists>flds. read_image_fields message = Inr flds"
      by (simp add: message)
  qed
  with rm rp t have "fst (webhook en (Inr body) w) = Inr status_ok"
    using webhook_returns_ok_iff [of en body w] by blast
  then show ?thesis by (simp add: status_ok_def)
qed

text \<open>
  An image message with and without network, and a status notification.
\<close>

theorem webhook_platform_payload_ok_witness:
  "platform_payload (image_payload ''wamid.1'') \<and>
   fst (webhook demo_env (Inr (image_payload ''wamid.1'')) empty_world) =
     Inr (JObj [(''status'', JStr ''ok'')]) \<and>
   fst (webhook offline_env (Inr (image_payload ''wamid.1'')) empty_world) =
     Inr (JObj [(''status'', JStr ''ok'')]) \<and>
   fst (webhook demo_env
     (Inr (JObj [(''entry'', JArr [JObj [(''changes'', JArr [JObj [(''value'', JObj
        [(''metadata'', JObj [(''phone_number_id'', JStr ''1055'')]),
         (''statuses'', JArr [JObj [(''status'', JStr ''delivered'')]])])]])]])]))
     empty_world) = Inr (JObj [(''status'', JStr ''ok'')])"
proof -
  have 1: "platform_payload (image_payload ''wamid.1'')"
    by (simp add: platform_payload_def platform_entry_def platform_change_def platform_value_def
        platform_message_def platform_image_def optional_def nonempty_list_def is_object_def
        image_payload_def image_message_def)
  have 2: "platform_payload (JObj [(''entry'', JArr [JObj [(''changes'', JArr [JObj [(''value'', JObj
        [(''metadata'', JObj [(''phone_number_id'', JStr ''1055'')]),
         (''statuses'', JArr [JObj [(''status'', JStr ''delivered'')]])])]])]])])"
    by (simp add: platform_payload_def platform_entry_def platform_change_def platform_value_def
        optional_def nonempty_list_def is_object_def)
  from 1 webhook_platform_payload_ok [OF 1, of demo_env empty_world]
    webhook_platform_payload_ok [OF 1, of offline_env empty_world]
    webhook_platform_payload_ok [OF 2, of demo_env empty_world]
  show ?thesis by simp
qed

text \<open>
  Claim C10, as the code has it. When line 80 reads a message that is a JSON object and
  line 81 reads the phone number id, both without an exception, and the type of the
  message is not \<^verbatim>\<open>"image"\<close> (a text message, a message without type, the empty payload),
  the handler returns \<^verbatim>\<open>{"status": "ok"}\<close>, changes no file, makes no HTTP call and
  touches no file: it only logs.
\<close>

theorem other_message_no_effect:
  assumes "read_message body = Inr (JObj flds)"
    and "read_phone_number_id body = Inr phone"
    and "map_of flds ''type'' \<noteq> Some (JStr ''image'')"
  shows "fst (webhook en (Inr body) w) = Inr (JObj [(''status'', JStr ''ok'')]) \<and>
         files (snd (webhook en (Inr body) w)) = files w \<and>
         trace (snd (webhook en (Inr body) w)) =
           trace w @ Log INFO (IncomingWebhook body) #
             (if map_of flds ''type'' = Some (JStr ''text'') then [Log INFO ReceivedText] else []) \<and>
         filter is_http_call (trace (snd (webhook en (Inr body) w))) =
           filter is_http_call (trace w) \<and>
         filter is_file_access (trace (snd (webhook en (Inr body) w))) =
           filter is_file_access (trace w)"
  using assms
  by (cases "map_of flds ''type''") (simp_all add: webhook_def io_defs py_get_def status_ok_def)

text \<open>
  The empty payload and a text message.
\<close>

theorem other_message_no_effect_witness:
  "webhook demo_env (Inr (JObj [])) empty_world =
     (Inr (JObj [(''status'', JStr ''ok'')]),
      \<lparr>files = (\<lambda>_. None), trace = [Log INFO (IncomingWebhook (JObj []))]\<rparr>) \<and>
   trace (snd (webhook demo_env
     (Inr (JObj [(''entry'', JArr [JObj [(''changes'', JArr [JObj [(''value'', JObj
        [(''messages'', JArr [JObj [(''type'', JStr ''text'')]])])]])]])]))
     empty_world)) =
     [Log INFO (IncomingWebhook
        (JObj [(''entry'', JArr [JObj [(''changes'', JArr [JObj [(''value'', JObj
          [(''messages'', JArr [JObj [(''type'', JStr ''text'')]])])]])]])])),
      Log INFO ReceivedText]"
proof -
  let ?text = "JObj [(''entry'', JArr [JObj [(''changes'', JArr [JObj [(''value'', JObj
        [(''messages'', JArr [JObj [(''type'', JStr ''text'')]])])]])]])]"
  have e: "read_message (JObj []) = Inr (JObj [])" "read_phone_number_id (JObj []) = Inr JNull"
    "map_of ([] :: (string \<times> json) list) ''type'' \<noteq> Some (JStr ''image'')"
    by (simp_all add: read_message_def read_value_def read_phone_number_id_def sum_bind_def
        py_get_def py_first_def)
  have t: "read_message ?text = Inr (JObj [(''type'', JStr ''text'')])"
    "read_phone_number_id ?text = Inr JNull"
    "map_of [(''type'', JStr ''text'')] ''type'' \<noteq> Some (JStr ''image'')"
    by (simp_all add: read_message_def read_value_def read_phone_number_id_def sum_bind_def
        py_get_def py_first_def)
  from other_message_no_effect [OF e, of demo_env empty_world]
    other_message_no_effect [OF t, of demo_env empty_world]
  show ?thesis by (simp add: empty_world_def prod_eq_iff)
qed

text \<open>
  Claim C10 as written fails on a text message whose \<^verbatim>\<open>metadata\<close> is a number: the message
  is read and its type is not \<^verbatim>\<open>"image"\<close>, but line 81 raises and the handler returns
  nothing.
\<close>

theorem other_message_raises_counterexample:
  "read_message (JObj [(''entry'', JArr [JObj [(''changes'', JArr [JObj [(''value'', JObj
      [(''metadata'', JInt 5),
       (''messages'', JArr [JObj [(''type'', JStr ''text'')]])])]])]])]) =
     Inr (JObj [(''type'', JStr ''text'')]) \<and>
   fst (webhook demo_env
     (Inr (JObj [(''entry'', JArr [JObj [(''changes'', JArr [JObj [(''value'', JObj
        [(''metadata'', JInt 5),
         (''messages'', JArr [JObj [(''type'', JStr ''text'')]])])]])]])]))
     empty_world) = Inl AttributeError"
  by (simp add: run_defs io_defs)

end
